theory Spec2Isabelle
  imports
    Complex_Main
    "HOL-Library.Sublist"
    "HOL-Library.Product_Lexorder"
    "HOL-Library.List_Lexorder"
    "HOL-Library.Multiset"
begin

section \<open>Conventions of the embedding\<close>

text \<open>
  The program is the Python backend of an evidence acquisition and ranking service:
  \<^verbatim>\<open>backend/http_client.py\<close> (the fetch layer), \<^verbatim>\<open>backend/db.py\<close> (the keyed
  store), \<^verbatim>\<open>backend/dd_reports.py\<close> (the frontier crawler and its relevance
  scorer), \<^verbatim>\<open>backend/deep_research_agent.py\<close> (the research orchestrator) and
  \<^verbatim>\<open>backend/mvp_pipeline.py\<close> (the content ranking pipeline).

  \<^item> A Python \<^verbatim>\<open>str\<close> is the list of its Unicode code points (the integers
    \<^verbatim>\<open>ord(c)\<close>), so that
    \<^verbatim>\<open>len\<close>, slicing, \<^verbatim>\<open>in\<close>, \<^verbatim>\<open>startswith\<close> and string comparison are
    \<open>length\<close>, \<open>take\<close>, \<open>sublist\<close>, \<open>prefix\<close> and the lexicographic order.
  \<^item> Python's unbounded \<^verbatim>\<open>int\<close> is \<open>int\<close> (or \<open>nat\<close> for a counter that only
    counts up from zero).
  \<^item> A Python \<^verbatim>\<open>float\<close> that carries a score or a duration is an exact rational:
    the embedding computes with the decimal constants of the source, not with their
    binary approximations.
  \<^item> An exception is a value: a computation that may raise returns \<open>exn + 'a\<close> with
    \<open>Inl\<close> for the raised exception, and every \<^verbatim>\<open>try/except\<close> of the source is a
    case distinction on it.
  \<^item> Library calls whose result depends on Unicode tables, on a URL or HTML parser, on
    the network, on a clock or on a random generator are parameters of the model,
    collected in records; a theorem that quantifies over such a record holds whatever
    the library, the network, the clock or the generator answers.
\<close>

type_synonym pystr = "int list"

type_synonym exn = pystr

definition U :: "string \<Rightarrow> pystr" where
  \<comment> \<open>an ASCII literal of the source as code points\<close>
  "U s = map of_char s"

record pylib =
  lower :: "pystr \<Rightarrow> pystr"        \<comment> \<open>\<^verbatim>\<open>str.lower()\<close>\<close>
  strip :: "pystr \<Rightarrow> pystr"        \<comment> \<open>\<^verbatim>\<open>str.strip()\<close>\<close>
  collapse_ws :: "pystr \<Rightarrow> pystr"  \<comment> \<open>\<^verbatim>\<open>re.sub(r"\s+", " ", s)\<close>\<close>
  netloc :: "pystr \<Rightarrow> pystr option"
    \<comment> \<open>\<^verbatim>\<open>urlparse(url).netloc\<close>; \<open>None\<close> when \<^verbatim>\<open>urlparse\<close> raises\<close>

definition py_in :: "pystr \<Rightarrow> pystr \<Rightarrow> bool" where
  \<comment> \<open>\<^verbatim>\<open>needle in haystack\<close> on strings\<close>
  "py_in needle haystack = sublist needle haystack"

fun digits :: "nat \<Rightarrow> pystr" where
  "digits n = (if n < 10 then [48 + int n] else digits (n div 10) @ [48 + int (n mod 10)])"

definition str_int :: "int \<Rightarrow> pystr" where
  \<comment> \<open>\<^verbatim>\<open>str(i)\<close> of an integer, as an f-string prints it\<close>
  "str_int i = (if i < 0 then 45 # digits (nat (- i)) else digits (nat i))"

section \<open>The keyed store (\<^verbatim>\<open>db.py\<close>)\<close>

text \<open>
  The tables \<^verbatim>\<open>source_cache\<close> (key: URL) and \<^verbatim>\<open>source_health\<close> (key: source
  key). A timestamp is a number of seconds; \<^verbatim>\<open>NOW()\<close> is the argument \<open>now\<close>.
\<close>

record cache_row =
  c_status_code :: int
  c_body :: pystr
  c_fetched_at :: int
  c_source :: pystr

record health_row =
  success_count :: nat
  failure_count :: nat
  consecutive_failures :: nat
  last_success_at :: "int option"
  last_failure_at :: "int option"
  updated_at :: int

record store =
  source_cache :: "pystr \<rightharpoonup> cache_row"
  source_health :: "pystr \<rightharpoonup> health_row"

definition record_source_health :: "int \<Rightarrow> pystr \<Rightarrow> bool \<Rightarrow> store \<Rightarrow> store" where
  "record_source_health now source_key success db =
     db\<lparr>source_health := (source_health db)(source_key \<mapsto>
       (case source_health db source_key of
          None \<Rightarrow>
            \<lparr>success_count = (if success then 1 else 0),
             failure_count = (if success then 0 else 1),
             consecutive_failures = (if success then 0 else 1),
             last_success_at = (if success then Some now else None),
             last_failure_at = (if success then None else Some now),
             updated_at = now\<rparr>
        | Some h \<Rightarrow>
            \<lparr>success_count = success_count h + (if success then 1 else 0),
             failure_count = failure_count h + (if success then 0 else 1),
             consecutive_failures = (if success then 0 else consecutive_failures h + 1),
             last_success_at = (if success then Some now else last_success_at h),
             last_failure_at = (if success then last_failure_at h else Some now),
             updated_at = now\<rparr>))\<rparr>"

definition upsert_source_cache ::
  "int \<Rightarrow> pystr \<Rightarrow> int \<Rightarrow> pystr \<Rightarrow> pystr \<Rightarrow> store \<Rightarrow> store" where
  "upsert_source_cache now url status_code body source db =
     db\<lparr>source_cache := (source_cache db)(url \<mapsto>
       \<lparr>c_status_code = status_code, c_body = body, c_fetched_at = now, c_source = source\<rparr>)\<rparr>"

definition get_source_cache :: "int \<Rightarrow> pystr \<Rightarrow> int \<Rightarrow> store \<Rightarrow> cache_row option" where
  \<comment> \<open>\<^verbatim>\<open>WHERE url = %s AND fetched_at >= NOW() - (%s * INTERVAL '1 hour')\<close>\<close>
  "get_source_cache now url max_age_hours db =
     (case source_cache db url of
        None \<Rightarrow> None
      | Some row \<Rightarrow> if c_fetched_at row \<ge> now - max_age_hours * 3600 then Some row else None)"

section \<open>The fetch layer (\<^verbatim>\<open>http_client.py\<close>)\<close>

text \<open>The dataclass \<^verbatim>\<open>HttpResult\<close>; each field carries the prefix \<open>res_\<close>.\<close>

record HttpResult =
  res_ok :: bool
  res_status_code :: int
  res_text :: pystr
  res_url :: pystr
  res_from_cache :: bool
  res_error :: "pystr option"

text \<open>
  The environment variables the module reads, as \<^verbatim>\<open>int()\<close> and \<^verbatim>\<open>float()\<close>
  parse them: \<open>None\<close> is a value that does not parse, where the source raises
  \<^verbatim>\<open>ValueError\<close> outside of any \<^verbatim>\<open>try\<close>.
\<close>

record fetch_config =
  MVP_HTTP_TIMEOUT :: "rat option"
  HTTP_MAX_RETRIES :: "int option"
  PROXY_POOL_URLS :: "pystr list"      \<comment> \<open>the pool \<^verbatim>\<open>_proxy_pool()\<close> returns\<close>
  HTTP_CACHE_TTL_HOURS :: "int option"

datatype db_op = UpsertCache | RecordHealth | GetCache

text \<open>
  What the world answers during one call of \<^verbatim>\<open>fetch_url\<close>: the reply to the GET of
  each attempt (a response with its status and text, or a raised exception with its
  message), the jitter \<^verbatim>\<open>random.uniform(0.0, 0.3)\<close> drawn at each attempt, whether
  each statement sent to the store raises, and the store's clock at that statement.
\<close>

record fetch_env =
  session_get :: "nat \<Rightarrow> pystr option \<Rightarrow> exn + (int \<times> pystr)"
  jitter :: "nat \<Rightarrow> rat"
  db_raises :: "db_op \<Rightarrow> bool"
  db_now :: "db_op \<Rightarrow> int"

datatype event = Get nat "pystr option" | Sleep rat

definition getenv_int :: "int option \<Rightarrow> exn + int" where
  "getenv_int v = (case v of None \<Rightarrow> Inl (U ''ValueError'') | Some i \<Rightarrow> Inr i)"

definition getenv_float :: "rat option \<Rightarrow> exn + rat" where
  "getenv_float v = (case v of None \<Rightarrow> Inl (U ''ValueError'') | Some x \<Rightarrow> Inr x)"

definition retryable :: "int \<Rightarrow> bool" where
  "retryable sc \<longleftrightarrow> sc = 429 \<or> (500 \<le> sc \<and> sc < 600)"

text \<open>
  \<^verbatim>\<open>_sleep_backoff\<close> computes \<^verbatim>\<open>0.5 * (2 ** attempt)\<close>: the power is a Python integer
  and the product converts it to a float, which raises \<^verbatim>\<open>OverflowError\<close> (with the
  message below) from \<^verbatim>\<open>2 ** 1024\<close> on. Below that the power, its half and the minimum
  with \<^verbatim>\<open>6.0\<close> are exact. The error is raised before the jitter is drawn and before
  the sleep.
\<close>

definition overflow_error :: exn where
  "overflow_error = U ''int too large to convert to float''"

definition backoff_base :: "nat \<Rightarrow> exn + rat" where
  \<comment> \<open>\<^verbatim>\<open>base = min(6.0, 0.5 * (2 ** attempt))\<close>\<close>
  "backoff_base attempt =
     (if 1024 \<le> int attempt then Inl overflow_error else Inr (min 6 (1 / 2 * 2 ^ attempt)))"

definition sleep_backoff :: "fetch_env \<Rightarrow> nat \<Rightarrow> exn + event" where
  \<comment> \<open>\<^verbatim>\<open>time.sleep(base + jitter)\<close>\<close>
  "sleep_backoff env attempt =
     (case backoff_base attempt of
        Inl exc \<Rightarrow> Inl exc
      | Inr base \<Rightarrow> Inr (Sleep (base + jitter env attempt)))"

definition hard_fail_markers :: "pystr list" where
  "hard_fail_markers =
     [U ''winerror 10051'', U ''name resolution'', U ''no route to host'',
      U ''temporary failure in name resolution'']"

definition retryable_exception :: "pylib \<Rightarrow> exn \<Rightarrow> bool" where
  "retryable_exception lib exc \<longleftrightarrow>
     \<not> (\<exists>marker \<in> set hard_fail_markers. py_in marker (lower lib exc))"

definition db_upsert_source_cache ::
  "fetch_env \<Rightarrow> pystr \<Rightarrow> int \<Rightarrow> pystr \<Rightarrow> pystr \<Rightarrow> store \<Rightarrow> exn + store" where
  "db_upsert_source_cache env u sc body source d =
     (if db_raises env UpsertCache then Inl (U ''OperationalError'')
      else Inr (upsert_source_cache (db_now env UpsertCache) u sc body source d))"

definition db_record_source_health :: "fetch_env \<Rightarrow> pystr \<Rightarrow> bool \<Rightarrow> store \<Rightarrow> exn + store" where
  "db_record_source_health env source_key success d =
     (if db_raises env RecordHealth then Inl (U ''OperationalError'')
      else Inr (record_source_health (db_now env RecordHealth) source_key success d))"

definition db_get_source_cache ::
  "fetch_env \<Rightarrow> pystr \<Rightarrow> int \<Rightarrow> store \<Rightarrow> exn + cache_row option" where
  "db_get_source_cache env u max_age_hours d =
     (if db_raises env GetCache then Inl (U ''OperationalError'')
      else Inr (get_source_cache (db_now env GetCache) u max_age_hours d))"

text \<open>
  The state of the retry loop: \<^verbatim>\<open>last_error\<close>, \<^verbatim>\<open>last_status\<close>, the store and the
  effects so far (each GET with its attempt index and proxy, each sleep with its
  duration).
\<close>

record fetch_state =
  last_error :: "pystr option"
  last_status :: int
  db :: store
  effects :: "event list"

definition persist_success :: "fetch_env \<Rightarrow> pystr \<Rightarrow> pystr \<Rightarrow> pystr \<Rightarrow> store \<Rightarrow> store" where
  \<comment> \<open>the inner \<^verbatim>\<open>try: upsert_source_cache(...); record_source_health(...) except Exception: pass\<close>\<close>
  "persist_success env url body source d =
     (case db_upsert_source_cache env url 200 body source d of
        Inl exc \<Rightarrow> d
      | Inr d1 \<Rightarrow>
          (case db_record_source_health env source True d1 of
             Inl exc \<Rightarrow> d1
           | Inr d2 \<Rightarrow> d2))"

definition choose_proxy :: "pystr list \<Rightarrow> nat \<Rightarrow> pystr option" where
  "choose_proxy proxies attempt =
     (if proxies \<noteq> [] then Some (proxies ! (attempt mod length proxies)) else None)"

text \<open>
  The loop \<^verbatim>\<open>for attempt in range(retries)\<close>. It ends with \<open>Inr (Some result, _)\<close> when
  the body returns (a response with status 200), with \<open>Inr (None, _)\<close> when the loop is
  left by \<^verbatim>\<open>break\<close> or runs out of attempts, and with \<open>Inl exc\<close> when an exception
  leaves the loop. Only \<^verbatim>\<open>_sleep_backoff\<close> can raise one that is not caught:
  \<^item> in the handler \<^verbatim>\<open>except Exception as exc\<close> the call \<^verbatim>\<open>_sleep_backoff(attempt)\<close> is
    outside every \<^verbatim>\<open>try\<close>, so its \<^verbatim>\<open>OverflowError\<close> leaves \<^verbatim>\<open>fetch_url\<close>;
  \<^item> after a retryable status the call is inside the \<^verbatim>\<open>try\<close>: its \<^verbatim>\<open>OverflowError\<close>
    enters the same handler, which stores the message in \<^verbatim>\<open>last_error\<close>, finds
    \<^verbatim>\<open>attempt < retries - 1\<close> still true and the message (lower case already, no
    hard-fail marker in it) retryable, and calls \<^verbatim>\<open>_sleep_backoff(attempt)\<close> again,
    which raises the same error, now uncaught.
\<close>

function fetch_attempts ::
  "pylib \<Rightarrow> fetch_env \<Rightarrow> pystr list \<Rightarrow> int \<Rightarrow> pystr \<Rightarrow> pystr \<Rightarrow> nat \<Rightarrow> fetch_state
     \<Rightarrow> exn + (HttpResult option \<times> fetch_state)" where
  "fetch_attempts lib env proxies retries u source attempt st =
     (if int attempt < retries then
        let proxy = choose_proxy proxies attempt;
            st1 = st\<lparr>effects := effects st @ [Get attempt proxy]\<rparr>
        in (case session_get env attempt proxy of
              Inr (resp_status, resp_text) \<Rightarrow>
                let st2 = st1\<lparr>last_status := resp_status\<rparr> in
                if resp_status = 200 then
                  Inr (Some \<lparr>res_ok = True, res_status_code = 200, res_text = resp_text,
                              res_url = u, res_from_cache = False, res_error = None\<rparr>,
                       st2\<lparr>db := persist_success env u resp_text source (db st2)\<rparr>)
                else if retryable resp_status \<and> int attempt < retries - 1 then
                  (case sleep_backoff env attempt of
                     Inl exc \<Rightarrow> Inl exc
                   | Inr ev \<Rightarrow>
                       fetch_attempts lib env proxies retries u source (Suc attempt)
                         (st2\<lparr>effects := effects st2 @ [ev]\<rparr>))
                else
                  Inr (None, st2\<lparr>last_error := Some (U ''HTTP '' @ str_int resp_status)\<rparr>)
            | Inl exc \<Rightarrow>
                let st2 = st1\<lparr>last_error := Some exc\<rparr> in
                if int attempt < retries - 1 \<and> retryable_exception lib exc then
                  (case sleep_backoff env attempt of
                     Inl exc2 \<Rightarrow> Inl exc2
                   | Inr ev \<Rightarrow>
                       fetch_attempts lib env proxies retries u source (Suc attempt)
                         (st2\<lparr>effects := effects st2 @ [ev]\<rparr>))
                else Inr (None, st2))
      else Inr (None, st))"
  by pat_completeness auto
termination
  by (relation "measure (\<lambda>(lib, env, proxies, retries, u, source, attempt, st).
        nat (retries - int attempt))") auto

definition serve_fallback ::
  "fetch_env \<Rightarrow> pystr \<Rightarrow> pystr \<Rightarrow> int \<Rightarrow> fetch_state \<Rightarrow> HttpResult \<times> store" where
  \<comment> \<open>the code after the loop: record the failure, then try the cache\<close>
  "serve_fallback env u source cache_hours st =
     (let d1 = (case db_record_source_health env source False (db st) of
                  Inl exc \<Rightarrow> db st
                | Inr d \<Rightarrow> d);
          cached = (case db_get_source_cache env u cache_hours d1 of
                      Inl exc \<Rightarrow> None
                    | Inr c \<Rightarrow> c)
      in (case cached of
            Some row \<Rightarrow>
              if c_body row \<noteq> [] then
                (\<lparr>res_ok = True,
                  res_status_code = (if c_status_code row = 0 then 200 else c_status_code row),
                  res_text = c_body row, res_url = u, res_from_cache = True,
                  res_error = last_error st\<rparr>, d1)
              else
                (\<lparr>res_ok = False, res_status_code = last_status st, res_text = [], res_url = u,
                  res_from_cache = False, res_error = last_error st\<rparr>, d1)
          | None \<Rightarrow>
              (\<lparr>res_ok = False, res_status_code = last_status st, res_text = [], res_url = u,
                res_from_cache = False, res_error = last_error st\<rparr>, d1)))"

definition fetch_url ::
  "pylib \<Rightarrow> fetch_config \<Rightarrow> fetch_env \<Rightarrow> store \<Rightarrow> pystr \<Rightarrow> pystr option \<Rightarrow> int option
     \<Rightarrow> rat option \<Rightarrow> exn + (HttpResult \<times> store \<times> event list)" where
  "fetch_url lib cfg env d u source_key cache_ttl_hours timeout =
     (case (case timeout of Some t \<Rightarrow> Inr t | None \<Rightarrow> getenv_float (MVP_HTTP_TIMEOUT cfg)) of
        Inl exc \<Rightarrow> Inl exc
      | Inr timeout' \<Rightarrow>
     (case getenv_int (HTTP_MAX_RETRIES cfg) of
        Inl exc \<Rightarrow> Inl exc
      | Inr max_retries \<Rightarrow>
     (case (case cache_ttl_hours of Some h \<Rightarrow> Inr h
             | None \<Rightarrow> getenv_int (HTTP_CACHE_TTL_HOURS cfg)) of
        Inl exc \<Rightarrow> Inl exc
      | Inr cache_hours \<Rightarrow>
          let retries = max 1 max_retries;
              proxies = PROXY_POOL_URLS cfg;
              source = (case source_key of
                          None \<Rightarrow> u
                        | Some k \<Rightarrow> if k = [] then u else k);
              st0 = \<lparr>last_error = None, last_status = 0, db = d, effects = []\<rparr>
          in (case fetch_attempts lib env proxies retries u source 0 st0 of
                Inl exc \<Rightarrow> Inl exc
              | Inr (Some result, st) \<Rightarrow> Inr (result, db st, effects st)
              | Inr (None, st) \<Rightarrow>
                  let (result, d') = serve_fallback env u source cache_hours st
                  in Inr (result, d', effects st)))))"

subsection \<open>Notions used to state the properties of the fetch layer\<close>

text \<open>
  An attempt fails transiently when it is answered with a retryable status, or raises
  an exception that \<^verbatim>\<open>_retryable_exception\<close> accepts.
\<close>

definition transient_failure :: "pylib \<Rightarrow> fetch_env \<Rightarrow> pystr list \<Rightarrow> nat \<Rightarrow> bool" where
  "transient_failure lib env proxies a =
     (case session_get env a (choose_proxy proxies a) of
        Inr (sc, body) \<Rightarrow> retryable sc
      | Inl exc \<Rightarrow> retryable_exception lib exc)"

text \<open>
  The effects of the attempts \<open>a, \<dots>, n\<close> when all but the last are retried, each
  after a sleep of \<^verbatim>\<open>min(6.0, 0.5 * 2 ** k)\<close> plus the jitter.
\<close>

definition attempts_trace :: "fetch_env \<Rightarrow> pystr list \<Rightarrow> nat \<Rightarrow> nat \<Rightarrow> event list" where
  "attempts_trace env proxies a n =
     concat (map (\<lambda>k. [Get k (choose_proxy proxies k),
                        Sleep (min 6 (1 / 2 * 2 ^ k) + jitter env k)]) [a..<n])
       @ [Get n (choose_proxy proxies n)]"

text \<open>
  The value of \<^verbatim>\<open>last_status\<close> after the attempts \<open>ks\<close>, from the value \<open>s\<close> before
  them: the status of the last of these attempts that was answered with a response,
  and \<open>s\<close> when each of them raised. \<open>observed_status env proxies n\<close> is the last
  status observed in the attempts \<open>0, \<dots>, n\<close>, and \<open>0\<close> when none was answered.
\<close>

definition status_after :: "fetch_env \<Rightarrow> pystr list \<Rightarrow> nat list \<Rightarrow> int \<Rightarrow> int" where
  "status_after env proxies ks s =
     fold (\<lambda>k s. case session_get env k (choose_proxy proxies k) of
                    Inr (sc, body) \<Rightarrow> sc
                  | Inl exc \<Rightarrow> s) ks s"

definition observed_status :: "fetch_env \<Rightarrow> pystr list \<Rightarrow> nat \<Rightarrow> int" where
  "observed_status env proxies n = status_after env proxies [0..<Suc n] 0"

text \<open>
  The call reaches the backoff that overflows: more than 1025 attempts are allowed and
  each of the attempts \<open>0, \<dots>, 1024\<close> fails transiently.
\<close>

definition backoff_overflows :: "pylib \<Rightarrow> fetch_config \<Rightarrow> fetch_env \<Rightarrow> bool" where
  "backoff_overflows lib cfg env \<longleftrightarrow>
     1026 \<le> max 1 (the (HTTP_MAX_RETRIES cfg))
     \<and> list_all (transient_failure lib env (PROXY_POOL_URLS cfg)) [0..<1025]"

text \<open>What the loop leaves behind when attempt \<open>n\<close> is its last.\<close>

definition final_outcome ::
  "pylib \<Rightarrow> fetch_env \<Rightarrow> pystr list \<Rightarrow> pystr \<Rightarrow> pystr \<Rightarrow> nat \<Rightarrow> fetch_state
     \<Rightarrow> HttpResult option \<times> fetch_state \<Rightarrow> bool" where
  "final_outcome lib env proxies u source n st R =
     (case session_get env n (choose_proxy proxies n) of
        Inr (sc, body) \<Rightarrow>
          if sc = 200 then
            fst R = Some \<lparr>res_ok = True, res_status_code = 200, res_text = body, res_url = u,
                          res_from_cache = False, res_error = None\<rparr>
            \<and> db (snd R) = persist_success env u body source (db st)
          else fst R = None \<and> last_error (snd R) = Some (U ''HTTP '' @ str_int sc)
               \<and> last_status (snd R) = sc \<and> db (snd R) = db st
      | Inl exc \<Rightarrow> fst R = None \<and> last_error (snd R) = Some exc \<and> db (snd R) = db st)"

text \<open>
  How the loop that starts with attempt \<open>a\<close> in state \<open>st\<close> ends, when \<open>n\<close> is its last
  attempt: the attempts before \<open>n\<close> failed transiently, each below the overflow of the
  backoff; either attempt \<open>n\<close> is to be retried as well, then it is attempt 1024 or a
  later one and the \<^verbatim>\<open>OverflowError\<close> of \<^verbatim>\<open>_sleep_backoff\<close> leaves the loop, or the loop
  ends with attempt \<open>n\<close> and leaves the effects, the last status and the outcome
  described above.
\<close>

definition attempts_end ::
  "pylib \<Rightarrow> fetch_env \<Rightarrow> pystr list \<Rightarrow> int \<Rightarrow> pystr \<Rightarrow> pystr \<Rightarrow> nat \<Rightarrow> fetch_state \<Rightarrow> nat
     \<Rightarrow> bool" where
  "attempts_end lib env proxies retries u source a st n \<longleftrightarrow>
     a \<le> n \<and> int n < retries \<and>
     (\<forall>k. a \<le> k \<and> k < n \<longrightarrow> transient_failure lib env proxies k \<and> k < 1024) \<and>
     (if transient_failure lib env proxies n \<and> int n < retries - 1
      then 1024 \<le> n
           \<and> fetch_attempts lib env proxies retries u source a st = Inl overflow_error
      else \<exists>R. fetch_attempts lib env proxies retries u source a st = Inr R
             \<and> effects (snd R) = effects st @ attempts_trace env proxies a n
             \<and> last_status (snd R) = status_after env proxies [a..<Suc n] (last_status st)
             \<and> final_outcome lib env proxies u source n st R)"

text \<open>
  The environment variables that a call reads parse: \<^verbatim>\<open>HTTP_MAX_RETRIES\<close> always,
  the two others when the argument that overrides them is \<^verbatim>\<open>None\<close>.
\<close>

definition config_parses :: "fetch_config \<Rightarrow> int option \<Rightarrow> rat option \<Rightarrow> bool" where
  "config_parses cfg cache_ttl_hours timeout \<longleftrightarrow>
     HTTP_MAX_RETRIES cfg \<noteq> None
     \<and> (timeout \<noteq> None \<or> MVP_HTTP_TIMEOUT cfg \<noteq> None)
     \<and> (cache_ttl_hours \<noteq> None \<or> HTTP_CACHE_TTL_HOURS cfg \<noteq> None)"

definition retries_of :: "fetch_config \<Rightarrow> int" where
  "retries_of cfg = max 1 (the (HTTP_MAX_RETRIES cfg))"

definition cache_hours_of :: "fetch_config \<Rightarrow> int option \<Rightarrow> int" where
  "cache_hours_of cfg cache_ttl_hours =
     (case cache_ttl_hours of Some h \<Rightarrow> h | None \<Rightarrow> the (HTTP_CACHE_TTL_HOURS cfg))"

definition source_of :: "pystr \<Rightarrow> pystr option \<Rightarrow> pystr" where
  "source_of u source_key = (case source_key of None \<Rightarrow> u | Some k \<Rightarrow> if k = [] then u else k)"

definition result_of :: "exn + (HttpResult \<times> store \<times> event list) \<Rightarrow> HttpResult option" where
  "result_of r = (case r of Inl exc \<Rightarrow> None | Inr (result, d, tr) \<Rightarrow> Some result)"

definition store_of :: "store \<Rightarrow> exn + (HttpResult \<times> store \<times> event list) \<Rightarrow> store" where
  "store_of d0 r = (case r of Inl exc \<Rightarrow> d0 | Inr (result, d, tr) \<Rightarrow> d)"

definition trace_of :: "exn + (HttpResult \<times> store \<times> event list) \<Rightarrow> event list" where
  "trace_of r = (case r of Inl exc \<Rightarrow> [] | Inr (result, d, tr) \<Rightarrow> tr)"

subsection \<open>Instances on which the examples are evaluated\<close>

text \<open>
  A library instance that agrees with Python on ASCII strings whose only whitespace is
  the space character, and on URLs of the form \<^verbatim>\<open>scheme://host/path\<close>.
\<close>

definition ascii_lower :: "pystr \<Rightarrow> pystr" where
  "ascii_lower s = map (\<lambda>c. if 65 \<le> c \<and> c \<le> 90 then c + 32 else c) s"

definition space_strip :: "pystr \<Rightarrow> pystr" where
  "space_strip s = rev (dropWhile (\<lambda>c. c = 32) (rev (dropWhile (\<lambda>c. c = 32) s)))"

fun space_collapse :: "pystr \<Rightarrow> pystr" where
  "space_collapse (a # b # r) =
     (if a = 32 \<and> b = 32 then space_collapse (b # r) else a # space_collapse (b # r))"
| "space_collapse r = r"

fun after_slashes :: "pystr \<Rightarrow> pystr" where
  "after_slashes (a # b # r) = (if a = 47 \<and> b = 47 then r else after_slashes (b # r))"
| "after_slashes r = []"

definition simple_netloc :: "pystr \<Rightarrow> pystr option" where
  "simple_netloc u = Some (takeWhile (\<lambda>c. c \<noteq> 47 \<and> c \<noteq> 63 \<and> c \<noteq> 35) (after_slashes u))"

definition example_lib :: pylib where
  "example_lib = \<lparr>lower = ascii_lower, strip = space_strip, collapse_ws = space_collapse,
                   netloc = simple_netloc\<rparr>"

definition example_config :: fetch_config where
  "example_config = \<lparr>MVP_HTTP_TIMEOUT = Some 8, HTTP_MAX_RETRIES = Some 3,
                      PROXY_POOL_URLS = [], HTTP_CACHE_TTL_HOURS = Some 24\<rparr>"

definition overflow_config :: fetch_config where
  \<comment> \<open>as \<open>example_config\<close>, with \<^verbatim>\<open>HTTP_MAX_RETRIES=1026\<close>\<close>
  "overflow_config = \<lparr>MVP_HTTP_TIMEOUT = Some 8, HTTP_MAX_RETRIES = Some 1026,
                       PROXY_POOL_URLS = [], HTTP_CACHE_TTL_HOURS = Some 24\<rparr>"

definition empty_store :: store where
  "empty_store = \<lparr>source_cache = Map.empty, source_health = Map.empty\<rparr>"

definition example_url :: pystr where
  "example_url = U ''https://acme.example/about''"


definition dns_env :: fetch_env where
  \<comment> \<open>the name of the host does not resolve\<close>
  "dns_env =
     \<lparr>session_get = (\<lambda>attempt proxy. Inl (U ''Temporary failure in name resolution'')),
      jitter = (\<lambda>attempt. 1 / 10),
      db_raises = (\<lambda>op. False),
      db_now = (\<lambda>op. 5000)\<rparr>"



definition cached_page_env :: fetch_env where
  \<comment> \<open>the page is served at once; the store works; its clock reads 1000\<close>
  "cached_page_env =
     \<lparr>session_get = (\<lambda>attempt proxy. Inr (200, U ''<html>Acme</html>'')),
      jitter = (\<lambda>attempt. 0),
      db_raises = (\<lambda>op. False),
      db_now = (\<lambda>op. 1000)\<rparr>"

definition empty_page_env :: fetch_env where
  \<comment> \<open>the server answers 200 with an empty body; the store works; its clock reads 1000\<close>
  "empty_page_env =
     \<lparr>session_get = (\<lambda>attempt proxy. Inr (200, [])),
      jitter = (\<lambda>attempt. 0),
      db_raises = (\<lambda>op. False),
      db_now = (\<lambda>op. 1000)\<rparr>"

definition outage_env :: fetch_env where
  \<comment> \<open>one hour later every attempt is answered 503; the store works\<close>
  "outage_env =
     \<lparr>session_get = (\<lambda>attempt proxy. Inr (503, U ''busy'')),
      jitter = (\<lambda>attempt. 0),
      db_raises = (\<lambda>op. False),
      db_now = (\<lambda>op. 4600)\<rparr>"

definition last_reply_error :: "exn + (int \<times> pystr) \<Rightarrow> pystr" where
  \<comment> \<open>the \<^verbatim>\<open>last_error\<close> an attempt leaves when the loop ends with it\<close>
  "last_reply_error reply =
     (case reply of Inl exc \<Rightarrow> exc | Inr (sc, body) \<Rightarrow> U ''HTTP '' @ str_int sc)"

section \<open>The frontier crawler (\<^verbatim>\<open>dd_reports.py\<close>)\<close>

subsection \<open>Domains\<close>

function py_remove :: "pystr \<Rightarrow> pystr \<Rightarrow> pystr" where
  \<comment> \<open>\<^verbatim>\<open>s.replace(old, "")\<close>\<close>
  "py_remove old [] = []"
| "py_remove old (c # r) =
     (if old \<noteq> [] \<and> prefix old (c # r) then py_remove old (drop (length old) (c # r))
      else c # py_remove old r)"
  by pat_completeness auto
termination
  by (relation "measure (\<lambda>(old, s). length s)") auto

fun py_split :: "int \<Rightarrow> pystr \<Rightarrow> pystr list" where
  \<comment> \<open>\<^verbatim>\<open>s.split(sep)\<close> for a separator of one character\<close>
  "py_split sep [] = [[]]"
| "py_split sep (c # r) =
     (if c = sep then [] # py_split sep r
      else (case py_split sep r of
              [] \<Rightarrow> [[c]]
            | p # ps \<Rightarrow> (c # p) # ps))"

fun py_join :: "pystr \<Rightarrow> pystr list \<Rightarrow> pystr" where
  \<comment> \<open>\<^verbatim>\<open>sep.join(parts)\<close>\<close>
  "py_join sep [] = []"
| "py_join sep [p] = p"
| "py_join sep (p # q # ps) = p @ sep @ py_join sep (q # ps)"

definition last_n :: "nat \<Rightarrow> 'a list \<Rightarrow> 'a list" where
  \<comment> \<open>the slice \<^verbatim>\<open>xs[-n:]\<close> for \<open>n > 0\<close>\<close>
  "last_n n xs = drop (length xs - n) xs"

definition domain_of :: "pylib \<Rightarrow> pystr \<Rightarrow> pystr" where
  \<comment> \<open>\<^verbatim>\<open>_domain\<close>: \<^verbatim>\<open>urlparse(url).netloc.lower()\<close>, and \<^verbatim>\<open>""\<close> on an exception\<close>
  "domain_of lib u = (case netloc lib u of None \<Rightarrow> [] | Some n \<Rightarrow> lower lib n)"

definition COMPANY_REGISTRY_DOMAINS :: "pystr list" where
  "COMPANY_REGISTRY_DOMAINS =
     [U ''twincn.com'', U ''findcompany.com.tw'', U ''opencorporates.com'']"

definition is_registry_domain :: "pylib \<Rightarrow> pystr \<Rightarrow> bool" where
  "is_registry_domain lib domain \<longleftrightarrow>
     (let d = py_remove (U ''www.'') (lower lib domain)
      in \<exists>x \<in> set COMPANY_REGISTRY_DOMAINS. suffix x d)"

definition registrable_domain :: "pylib \<Rightarrow> pystr \<Rightarrow> pystr" where
  "registrable_domain lib domain =
     (let d = py_remove (U ''www.'') (lower lib domain) in
      if d = [] then []
      else
        let parts = filter (\<lambda>p. p \<noteq> []) (py_split 46 d) in
        if length parts \<le> 2 then d
        else if parts ! (length parts - 2) \<in> set [U ''com'', U ''org'', U ''net'', U ''gov'', U ''edu'']
                \<and> length (last parts) = 2 \<and> length parts \<ge> 3
        then py_join (U ''.'') (last_n 3 parts)
        else py_join (U ''.'') (last_n 2 parts))"

definition same_reg_domain :: "pylib \<Rightarrow> pystr \<Rightarrow> pystr \<Rightarrow> bool" where
  "same_reg_domain lib url_a url_b \<longleftrightarrow>
     (let da = registrable_domain lib (domain_of lib url_a);
          db = registrable_domain lib (domain_of lib url_b)
      in da \<noteq> [] \<and> db \<noteq> [] \<and> da = db)"

definition compact_text :: "pylib \<Rightarrow> pystr \<Rightarrow> nat \<Rightarrow> pystr" where
  \<comment> \<open>\<^verbatim>\<open>_compact_text\<close>\<close>
  "compact_text lib v max_len = take max_len (strip lib (collapse_ws lib v))"

subsection \<open>Numbers\<close>

definition round_half_even :: "rat \<Rightarrow> int" where
  "round_half_even x =
     (let f = \<lfloor>x\<rfloor>; d = x - of_int f
      in if d < 1 / 2 then f else if 1 / 2 < d then f + 1 else if even f then f else f + 1)"

definition py_round :: "rat \<Rightarrow> nat \<Rightarrow> rat" where
  \<comment> \<open>\<^verbatim>\<open>round(x, ndigits)\<close> on the exact value\<close>
  "py_round x ndigits = of_int (round_half_even (x * 10 ^ ndigits)) / 10 ^ ndigits"

definition py_sort_desc :: "('a \<Rightarrow> 'k::linorder) \<Rightarrow> 'a list \<Rightarrow> 'a list" where
  \<comment> \<open>\<^verbatim>\<open>xs.sort(key=f, reverse=True)\<close>: the list is reversed, sorted by the stable
      ascending sort, and reversed again, so that equal keys keep their order\<close>
  "py_sort_desc f xs = rev (sort_key f (rev xs))"

subsection \<open>Data of a crawl\<close>

text \<open>
  A frontier entry, and an evidence row as the crawler appends it to
  \<^verbatim>\<open>evidence_rows\<close> (fields with the prefix \<open>row_\<close>). The entry \<^verbatim>\<open>key_facts\<close> of a
  row and the lists \<^verbatim>\<open>evidence_texts\<close>, \<^verbatim>\<open>evidence_text_map\<close> and
  \<^verbatim>\<open>crawled_domains\<close> are written but never read by a decision of the crawler; they
  are left out.
\<close>

record entry =
  e_url :: pystr
  e_depth :: int
  e_source :: pystr

record row =
  row_url :: pystr
  row_domain :: pystr
  row_title :: pystr
  row_excerpt :: pystr
  row_content_chars :: nat
  row_source_type :: pystr
  row_crawl_source :: pystr
  row_depth :: int
  row_is_official_site :: bool

datatype status =
  FetchFailed | ContentTooShort | NotFoundPage | RegistryIrrelevant | DuplicateTitle
  | RegistryCap | ExternalCap | Ok | StopByTimeout | EnqueuePublicSearch nat

text \<open>The environment variables \<^verbatim>\<open>DD_COMPANY_*\<close>, as \<^verbatim>\<open>int()\<close> parses them.\<close>

record crawl_config =
  DD_COMPANY_MAX_PAGES :: int
  DD_COMPANY_MIN_PAGES :: int
  DD_COMPANY_INTERNAL_MAX_DEPTH :: int
  DD_COMPANY_INTERNAL_MAX_LINKS :: int
  DD_COMPANY_SITEMAP_MAX_URLS :: int
  DD_COMPANY_EXTERNAL_MAX_URLS :: int
  DD_COMPANY_MAX_REGISTRY_PAGES :: int
  DD_COMPANY_MAX_EXTERNAL_PAGES :: int
  DD_COMPANY_ENABLE_WEB_SEARCH :: bool
  DD_COMPANY_ALWAYS_WEB_SEARCH :: bool

definition max_pages :: "crawl_config \<Rightarrow> int" where
  "max_pages cfg = max 6 (min 24 (DD_COMPANY_MAX_PAGES cfg))"

definition min_target_pages :: "crawl_config \<Rightarrow> int" where
  "min_target_pages cfg = max 4 (min 10 (DD_COMPANY_MIN_PAGES cfg))"

definition internal_max_depth :: "crawl_config \<Rightarrow> int" where
  "internal_max_depth cfg = max 1 (min 4 (DD_COMPANY_INTERNAL_MAX_DEPTH cfg))"

definition internal_max_links :: "crawl_config \<Rightarrow> int" where
  "internal_max_links cfg = max 40 (min 300 (DD_COMPANY_INTERNAL_MAX_LINKS cfg))"

definition sitemap_max_urls :: "crawl_config \<Rightarrow> int" where
  "sitemap_max_urls cfg = max 20 (min 300 (DD_COMPANY_SITEMAP_MAX_URLS cfg))"

definition external_max_urls :: "crawl_config \<Rightarrow> int" where
  "external_max_urls cfg = max 8 (min 80 (DD_COMPANY_EXTERNAL_MAX_URLS cfg))"

definition max_registry_pages :: "crawl_config \<Rightarrow> int" where
  "max_registry_pages cfg = max 4 (min 16 (DD_COMPANY_MAX_REGISTRY_PAGES cfg))"

definition max_external_pages :: "crawl_config \<Rightarrow> int" where
  "max_external_pages cfg = max 6 (min 20 (DD_COMPANY_MAX_EXTERNAL_PAGES cfg))"

text \<open>
  What the world answers during one crawl. The helpers of \<^verbatim>\<open>dd_reports.py\<close> that
  parse URLs and HTML, fetch pages or search the web are parameters: the crawler only
  passes their results on. The fetches and the clock are indexed by the number of the
  loop iteration that asks, so that the web may change during the crawl.
\<close>

record world =
  sanitize_url_for_crawl :: "pystr \<Rightarrow> pystr"
  query_no :: "pystr \<Rightarrow> pystr"
    \<comment> \<open>\<^verbatim>\<open>str(dict(parse_qsl(urlparse(url).query)).get("no") or "")\<close>\<close>
  build_internal_seed_urls :: "pystr \<Rightarrow> pystr list"
  parent_urls :: "pystr \<Rightarrow> pystr list"
  discover_sitemap_urls :: "pystr \<Rightarrow> int \<Rightarrow> pystr list"
  fetch_html :: "nat \<Rightarrow> pystr \<Rightarrow> pystr"
  fetch_text :: "nat \<Rightarrow> pystr \<Rightarrow> pystr"      \<comment> \<open>\<^verbatim>\<open>_fetch_text(url, max_chars=8000)\<close>\<close>
  soup_text :: "pystr \<Rightarrow> pystr"
    \<comment> \<open>\<^verbatim>\<open>BeautifulSoup(html, "html.parser").get_text(" ", strip=True)\<close>\<close>
  extract_page_title :: "pystr \<Rightarrow> pystr"
  extract_internal_links :: "pystr \<Rightarrow> pystr \<Rightarrow> int \<Rightarrow> pystr list"
  extract_candidate_company_links :: "pystr \<Rightarrow> pystr \<Rightarrow> pystr \<Rightarrow> pystr list"
  extract_official_site_candidates :: "pystr \<Rightarrow> pystr \<Rightarrow> pystr \<Rightarrow> pystr list"
  extract_related_public_urls :: "pystr \<Rightarrow> pystr \<Rightarrow> pystr \<Rightarrow> pystr list"
  extract_external_signal_links :: "pystr \<Rightarrow> pystr \<Rightarrow> pystr \<Rightarrow> pystr list"
  search_company_public_urls :: "pystr \<Rightarrow> pystr \<Rightarrow> int \<Rightarrow> row list \<Rightarrow> pystr list"
    \<comment> \<open>\<^verbatim>\<open>_search_company_public_urls\<close> with the terms that
        \<^verbatim>\<open>_extract_company_search_terms(company_name, evidence_rows)\<close> yields\<close>
  over_budget :: "nat \<Rightarrow> bool"
    \<comment> \<open>\<^verbatim>\<open>(time.monotonic() - started) > crawl_max_sec\<close>\<close>

text \<open>
  The local variables of \<^verbatim>\<open>_collect_company_evidence\<close>. The set \<^verbatim>\<open>visited\<close> is kept
  as the list of its elements in the order they were added; \<open>ticks\<close> counts the loop
  iterations.
\<close>

record crawl_state =
  queue :: "entry list"
  queued_urls :: "pystr set"
  idx :: nat
  evidence_rows :: "row list"
  visited :: "pystr list"
  seen_titles :: "pystr set"
  seen_signatures :: "pystr set"
  trace_steps :: "(pystr \<times> status) list"
  did_search :: bool
  internal_pages :: nat
  external_pages :: nat
  registry_pages :: nat
  ticks :: nat

text \<open>The arguments of a crawl and what is computed from them before the loop.\<close>

record crawl_args =
  a_lib :: pylib
  a_world :: world
  a_cfg :: crawl_config
  a_official_url :: pystr
  a_company_name :: pystr

definition company_low :: "crawl_args \<Rightarrow> pystr" where
  "company_low a = lower (a_lib a) (strip (a_lib a) (a_company_name a))"

definition official_is_registry :: "crawl_args \<Rightarrow> bool" where
  "official_is_registry a =
     is_registry_domain (a_lib a) (domain_of (a_lib a) (a_official_url a))"

definition official_no :: "crawl_args \<Rightarrow> pystr" where
  "official_no a =
     lower (a_lib a) (strip (a_lib a) (query_no (a_world a) (a_official_url a)))"

subsection \<open>The frontier\<close>

definition enqueue :: "crawl_args \<Rightarrow> pystr \<Rightarrow> int \<Rightarrow> pystr \<Rightarrow> crawl_state \<Rightarrow> crawl_state" where
  "enqueue a u depth source st =
     (let clean = sanitize_url_for_crawl (a_world a) u in
      if clean = [] then st
      else if \<not> (prefix (U ''http://'') clean \<or> prefix (U ''https://'') clean) then st
      else if clean \<in> queued_urls st then st
      else st\<lparr>queue := queue st @ [\<lparr>e_url = clean, e_depth = depth, e_source = source\<rparr>],
              queued_urls := insert clean (queued_urls st)\<rparr>)"

definition enqueue_all :: "crawl_args \<Rightarrow> pystr list \<Rightarrow> int \<Rightarrow> pystr \<Rightarrow> crawl_state \<Rightarrow> crawl_state" where
  \<comment> \<open>\<^verbatim>\<open>for u in us: enqueue(u, depth, source)\<close>\<close>
  "enqueue_all a us depth source st = fold (\<lambda>u. enqueue a u depth source) us st"

definition enqueue_public_search :: "crawl_args \<Rightarrow> crawl_state \<Rightarrow> crawl_state" where
  "enqueue_public_search a st =
     (if did_search st \<or> a_company_name a = [] \<or> \<not> DD_COMPANY_ENABLE_WEB_SEARCH (a_cfg a)
      then st
      else
        let discovered_urls =
              search_company_public_urls (a_world a) (a_company_name a) (a_official_url a)
                (external_max_urls (a_cfg a)) (evidence_rows st);
            st1 = enqueue_all a discovered_urls 0 (U ''public_search'') (st\<lparr>did_search := True\<rparr>)
        in st1\<lparr>trace_steps := trace_steps st1
                   @ [([], EnqueuePublicSearch (length discovered_urls))]\<rparr>)"

definition seed_extra :: "crawl_args \<Rightarrow> pystr \<Rightarrow> crawl_state \<Rightarrow> crawl_state" where
  \<comment> \<open>the body of \<^verbatim>\<open>for u in (extra_urls or [])\<close>\<close>
  "seed_extra a u st =
     (let v = strip (a_lib a) u in
      if v = [] then st
      else enqueue_all a (parent_urls (a_world a) v) 0 (U ''extra_parent'')
             (enqueue a v 0 (U ''extra_url'') st))"

definition initial_state :: "crawl_args \<Rightarrow> pystr list \<Rightarrow> crawl_state" where
  "initial_state a extra_urls =
     (let st0 = \<lparr>queue = [], queued_urls = {}, idx = 0, evidence_rows = [], visited = [],
                  seen_titles = {}, seen_signatures = {}, trace_steps = [], did_search = False,
                  internal_pages = 0, external_pages = 0, registry_pages = 0, ticks = 0\<rparr>;
          st1 = enqueue_all a (build_internal_seed_urls (a_world a) (a_official_url a)) 0
                  (U ''official_seed'') st0;
          st2 = enqueue_all a (parent_urls (a_world a) (a_official_url a)) 0
                  (U ''official_parent'') st1;
          st3 = enqueue_all a (discover_sitemap_urls (a_world a) (a_official_url a)
                  (sitemap_max_urls (a_cfg a))) 1 (U ''official_sitemap'') st2
      in fold (seed_extra a) extra_urls st3)"

subsection \<open>One iteration of the loop\<close>

datatype 'a flow = Next 'a | Break 'a

text \<open>What one visit reads from the page.\<close>

record page =
  p_html :: pystr
  p_text :: pystr
  p_title :: pystr
  p_excerpt :: pystr

definition load_page :: "crawl_args \<Rightarrow> nat \<Rightarrow> pystr \<Rightarrow> page" where
  "load_page a tick u =
     (let html = fetch_html (a_world a) tick u;
          t = (if html \<noteq> []
               then strip (a_lib a) (collapse_ws (a_lib a) (soup_text (a_world a) html))
               else strip (a_lib a) (collapse_ws (a_lib a) (fetch_text (a_world a) tick u)));
          title = (if extract_page_title (a_world a) html \<noteq> []
                   then extract_page_title (a_world a) html else u)
      in \<lparr>p_html = html, p_text = t, p_title = title, p_excerpt = compact_text (a_lib a) t 360\<rparr>)"

definition not_found_zh :: pystr where
  \<comment> \<open>the literal of seven CJK characters that the source looks for beside \<^verbatim>\<open>404\<close>\<close>
  "not_found_zh = [25214, 19981, 21040, 20219, 20309, 38913, 38754]"

definition title_key :: "pylib \<Rightarrow> pystr \<Rightarrow> pystr" where
  "title_key lib title = lower lib (strip lib title)"

definition excerpt_key :: "pylib \<Rightarrow> pystr \<Rightarrow> pystr" where
  "excerpt_key lib excerpt = take 180 (collapse_ws lib (lower lib excerpt))"

definition content_signature :: "pylib \<Rightarrow> pystr \<Rightarrow> pystr \<Rightarrow> pystr" where
  "content_signature lib title excerpt = title_key lib title @ U ''|'' @ excerpt_key lib excerpt"

definition early_reject :: "crawl_args \<Rightarrow> crawl_state \<Rightarrow> pystr \<Rightarrow> page \<Rightarrow> status option" where
  \<comment> \<open>the rejections that come before \<^verbatim>\<open>seen_titles\<close> and \<^verbatim>\<open>seen_signatures\<close> are updated\<close>
  "early_reject a st u p =
     (let lib = a_lib a;
          low_page = lower lib (p_title p @ U '' '' @ p_excerpt p);
          has_company_name = (company_low a \<noteq> [] \<and> py_in (company_low a) low_page);
          has_same_no = (official_no a \<noteq> [] \<and> py_in (U ''no='' @ official_no a) (lower lib u))
      in if length (p_text p) < 80 then
           Some (if p_html p = [] \<and> p_text p = [] then FetchFailed else ContentTooShort)
         else if py_in (U ''404'') low_page \<or> py_in not_found_zh low_page then Some NotFoundPage
         else if is_registry_domain lib (domain_of lib u)
                 \<and> company_low a \<noteq> [] \<and> \<not> has_company_name \<and> \<not> has_same_no
         then Some RegistryIrrelevant
         else if content_signature lib (p_title p) (p_excerpt p) \<in> seen_signatures st
         then Some DuplicateTitle
         else if title_key lib (p_title p) \<in> seen_titles st
                 \<and> length (excerpt_key lib (p_excerpt p)) < 40
         then Some DuplicateTitle
         else None)"

definition cap_reject :: "crawl_args \<Rightarrow> crawl_state \<Rightarrow> bool \<Rightarrow> bool \<Rightarrow> status option" where
  "cap_reject a st is_internal is_registry =
     (if is_registry \<and> int (registry_pages st) \<ge> max_registry_pages (a_cfg a) then Some RegistryCap
      else if \<not> is_internal \<and> int (external_pages st) \<ge> max_external_pages (a_cfg a)
      then Some ExternalCap
      else None)"

definition make_row :: "crawl_args \<Rightarrow> entry \<Rightarrow> page \<Rightarrow> bool \<Rightarrow> bool \<Rightarrow> row" where
  "make_row a item p is_internal is_registry =
     \<lparr>row_url = e_url item, row_domain = domain_of (a_lib a) (e_url item), row_title = p_title p,
      row_excerpt = p_excerpt p, row_content_chars = length (p_text p),
      row_source_type = (if is_registry then U ''registry'' else U ''web''),
      row_crawl_source = e_source item, row_depth = e_depth item,
      row_is_official_site = is_internal\<rparr>"

definition count_page :: "entry \<Rightarrow> row \<Rightarrow> bool \<Rightarrow> bool \<Rightarrow> crawl_state \<Rightarrow> crawl_state" where
  \<comment> \<open>the counters, \<^verbatim>\<open>evidence_rows.append(row)\<close> and the trace step \<^verbatim>\<open>ok\<close>\<close>
  "count_page item r is_internal is_registry st =
     st\<lparr>internal_pages := (if is_internal then internal_pages st + 1 else internal_pages st),
        external_pages := (if is_internal then external_pages st else external_pages st + 1),
        registry_pages := (if is_registry then registry_pages st + 1 else registry_pages st),
        evidence_rows := evidence_rows st @ [r],
        trace_steps := trace_steps st @ [(e_url item, Ok)]\<rparr>"

definition follow_links :: "crawl_args \<Rightarrow> entry \<Rightarrow> page \<Rightarrow> bool \<Rightarrow> crawl_state \<Rightarrow> crawl_state" where
  \<comment> \<open>the block \<^verbatim>\<open>if html:\<close> after a page is accepted\<close>
  "follow_links a item p is_internal st =
     (if p_html p = [] then st
      else
        let w = a_world a; u = e_url item; depth = e_depth item; html = p_html p;
            st1 = (if is_internal \<and> depth < internal_max_depth (a_cfg a)
                   then enqueue_all a (extract_internal_links w u html (internal_max_links (a_cfg a)))
                          (depth + 1) (U ''official_internal'') st
                   else st);
            st2 = enqueue_all a (extract_candidate_company_links w u html (a_company_name a))
                    (depth + 1) (U ''hint_link'') st1;
            st3 = enqueue_all a (parent_urls w u) (max (depth - 1) 0) (U ''parent_route'') st2;
            st4 = (if is_registry_domain (a_lib a) (domain_of (a_lib a) u)
                   then
                     enqueue_all a (extract_related_public_urls w html (a_company_name a) (official_no a))
                       (depth + 1) (U ''registry_related'')
                       (fold (\<lambda>official. enqueue_all a (parent_urls w official) 0 (U ''registry_official''))
                          (extract_official_site_candidates w u html (a_company_name a)) st3)
                   else st3)
        in enqueue_all a (extract_external_signal_links w u html (a_company_name a))
             (depth + 1) (U ''external_signal'') st4)"

definition search_triggers :: "crawl_args \<Rightarrow> crawl_state \<Rightarrow> crawl_state" where
  "search_triggers a st =
     (if official_is_registry a \<and> \<not> did_search st \<and> a_company_name a \<noteq> [] then
        (if registry_pages st \<ge> 2 \<or> length (visited st) \<ge> 4 then enqueue_public_search a st
         else st)
      else if DD_COMPANY_ALWAYS_WEB_SEARCH (a_cfg a) \<and> \<not> did_search st \<and> a_company_name a \<noteq> []
      then
        (if internal_pages st \<ge> 3 \<or> (length (visited st) \<ge> 6 \<and> external_pages st = 0)
         then enqueue_public_search a st
         else st)
      else st)"

definition accept_page :: "crawl_args \<Rightarrow> entry \<Rightarrow> page \<Rightarrow> bool \<Rightarrow> bool \<Rightarrow> crawl_state \<Rightarrow> crawl_state" where
  "accept_page a item p is_internal is_registry st =
     search_triggers a
       (follow_links a item p is_internal
          (count_page item (make_row a item p is_internal is_registry) is_internal is_registry st))"

definition loop_head :: "crawl_args \<Rightarrow> crawl_state \<Rightarrow> crawl_state flow" where
  \<comment> \<open>the time check and the exhausted frontier, before an entry is taken\<close>
  "loop_head a st =
     (if over_budget (a_world a) (ticks st) then
        Break (st\<lparr>trace_steps := trace_steps st @ [([], StopByTimeout)]\<rparr>)
      else if idx st \<ge> length (queue st) then
        (if \<not> did_search st \<and> a_company_name a \<noteq> [] then
           let st1 = enqueue_public_search a st
           in if idx st1 \<ge> length (queue st1) then Break st1 else Next st1
         else Break st)
      else Next st)"

definition visit :: "crawl_args \<Rightarrow> crawl_state \<Rightarrow> crawl_state flow" where
  \<comment> \<open>from \<^verbatim>\<open>item = queue[idx]\<close> to the end of the loop body\<close>
  "visit a st =
     (let item = queue st ! idx st;
          st1 = st\<lparr>idx := idx st + 1\<rparr>;
          u = e_url item
      in if u \<in> set (visited st1) then Next st1
         else
           let st2 = st1\<lparr>visited := visited st1 @ [u]\<rparr>;
               p = load_page a (ticks st) u
           in (case early_reject a st2 u p of
                 Some s \<Rightarrow> Next (st2\<lparr>trace_steps := trace_steps st2 @ [(u, s)]\<rparr>)
               | None \<Rightarrow>
                   let st3 = st2\<lparr>seen_titles := insert (title_key (a_lib a) (p_title p)) (seen_titles st2),
                                 seen_signatures :=
                                   insert (content_signature (a_lib a) (p_title p) (p_excerpt p))
                                     (seen_signatures st2)\<rparr>;
                       is_internal = same_reg_domain (a_lib a) (a_official_url a) u;
                       is_registry = is_registry_domain (a_lib a) (domain_of (a_lib a) u)
                   in (case cap_reject a st3 is_internal is_registry of
                         Some s \<Rightarrow> Next (st3\<lparr>trace_steps := trace_steps st3 @ [(u, s)]\<rparr>)
                       | None \<Rightarrow>
                           let st4 = accept_page a item p is_internal is_registry st3
                           in if int (length (evidence_rows st4)) \<ge> min_target_pages (a_cfg a)
                                 \<and> idx st4 \<ge> length (queue st4)
                              then Break st4 else Next st4)))"

definition crawl_step :: "crawl_args \<Rightarrow> crawl_state \<Rightarrow> crawl_state flow" where
  "crawl_step a st =
     (case loop_head a st of
        Break st1 \<Rightarrow> Break st1
      | Next st1 \<Rightarrow> visit a st1)"

subsection \<open>The loop\<close>

text \<open>
  The helpers that enqueue URLs change the frontier only. These facts give the measure
  under which the loop terminates: an iteration that goes on either accepts a page, or
  fires the single search expansion, or moves \<^verbatim>\<open>idx\<close> towards the end of an unchanged
  queue.
\<close>


lemma enqueue_keeps [simp]:
  "evidence_rows (enqueue a u depth source st) = evidence_rows st"
  "idx (enqueue a u depth source st) = idx st"
  "did_search (enqueue a u depth source st) = did_search st"
  "visited (enqueue a u depth source st) = visited st"
  "seen_titles (enqueue a u depth source st) = seen_titles st"
  "seen_signatures (enqueue a u depth source st) = seen_signatures st"
  "internal_pages (enqueue a u depth source st) = internal_pages st"
  "external_pages (enqueue a u depth source st) = external_pages st"
  "registry_pages (enqueue a u depth source st) = registry_pages st"
  "ticks (enqueue a u depth source st) = ticks st"
  by (simp_all add: enqueue_def Let_def)

lemma enqueue_all_keeps [simp]:
  "evidence_rows (enqueue_all a us depth source st) = evidence_rows st"
  "idx (enqueue_all a us depth source st) = idx st"
  "did_search (enqueue_all a us depth source st) = did_search st"
  "visited (enqueue_all a us depth source st) = visited st"
  "seen_titles (enqueue_all a us depth source st) = seen_titles st"
  "seen_signatures (enqueue_all a us depth source st) = seen_signatures st"
  "internal_pages (enqueue_all a us depth source st) = internal_pages st"
  "external_pages (enqueue_all a us depth source st) = external_pages st"
  "registry_pages (enqueue_all a us depth source st) = registry_pages st"
  "ticks (enqueue_all a us depth source st) = ticks st"
  unfolding enqueue_all_def by (induction us arbitrary: st; simp)+

lemma enqueue_public_search_keeps [simp]:
  "evidence_rows (enqueue_public_search a st) = evidence_rows st"
  "idx (enqueue_public_search a st) = idx st"
  "visited (enqueue_public_search a st) = visited st"
  "seen_titles (enqueue_public_search a st) = seen_titles st"
  "seen_signatures (enqueue_public_search a st) = seen_signatures st"
  "internal_pages (enqueue_public_search a st) = internal_pages st"
  "external_pages (enqueue_public_search a st) = external_pages st"
  "registry_pages (enqueue_public_search a st) = registry_pages st"
  "ticks (enqueue_public_search a st) = ticks st"
  by (simp_all add: enqueue_public_search_def Let_def)

lemma enqueue_public_search_did:
  "enqueue_public_search a st = st \<or> (\<not> did_search st \<and> did_search (enqueue_public_search a st))"
  by (simp add: enqueue_public_search_def Let_def)

lemma search_triggers_keeps [simp]:
  "evidence_rows (search_triggers a st) = evidence_rows st"
  "idx (search_triggers a st) = idx st"
  "visited (search_triggers a st) = visited st"
  "seen_titles (search_triggers a st) = seen_titles st"
  "seen_signatures (search_triggers a st) = seen_signatures st"
  "internal_pages (search_triggers a st) = internal_pages st"
  "external_pages (search_triggers a st) = external_pages st"
  "registry_pages (search_triggers a st) = registry_pages st"
  "ticks (search_triggers a st) = ticks st"
  by (simp_all add: search_triggers_def)

lemma fold_enqueue_all_keeps [simp]:
  "evidence_rows (fold (\<lambda>x. enqueue_all a (f x) depth source) xs st) = evidence_rows st"
  "idx (fold (\<lambda>x. enqueue_all a (f x) depth source) xs st) = idx st"
  "did_search (fold (\<lambda>x. enqueue_all a (f x) depth source) xs st) = did_search st"
  "visited (fold (\<lambda>x. enqueue_all a (f x) depth source) xs st) = visited st"
  "seen_titles (fold (\<lambda>x. enqueue_all a (f x) depth source) xs st) = seen_titles st"
  "seen_signatures (fold (\<lambda>x. enqueue_all a (f x) depth source) xs st) = seen_signatures st"
  "internal_pages (fold (\<lambda>x. enqueue_all a (f x) depth source) xs st) = internal_pages st"
  "external_pages (fold (\<lambda>x. enqueue_all a (f x) depth source) xs st) = external_pages st"
  "registry_pages (fold (\<lambda>x. enqueue_all a (f x) depth source) xs st) = registry_pages st"
  "ticks (fold (\<lambda>x. enqueue_all a (f x) depth source) xs st) = ticks st"
  by (induction xs arbitrary: st; simp)+

lemma follow_links_keeps [simp]:
  "evidence_rows (follow_links a item p is_internal st) = evidence_rows st"
  "idx (follow_links a item p is_internal st) = idx st"
  "did_search (follow_links a item p is_internal st) = did_search st"
  "visited (follow_links a item p is_internal st) = visited st"
  "seen_titles (follow_links a item p is_internal st) = seen_titles st"
  "seen_signatures (follow_links a item p is_internal st) = seen_signatures st"
  "internal_pages (follow_links a item p is_internal st) = internal_pages st"
  "external_pages (follow_links a item p is_internal st) = external_pages st"
  "registry_pages (follow_links a item p is_internal st) = registry_pages st"
  "ticks (follow_links a item p is_internal st) = ticks st"
  by (simp_all add: follow_links_def Let_def)

lemma accept_page_rows [simp]:
  "evidence_rows (accept_page a item p is_internal is_registry st)
     = evidence_rows st @ [make_row a item p is_internal is_registry]"
  "idx (accept_page a item p is_internal is_registry st) = idx st"
  "visited (accept_page a item p is_internal is_registry st) = visited st"
  "seen_titles (accept_page a item p is_internal is_registry st) = seen_titles st"
  "seen_signatures (accept_page a item p is_internal is_registry st) = seen_signatures st"
  "ticks (accept_page a item p is_internal is_registry st) = ticks st"
  by (simp_all add: accept_page_def count_page_def)

lemma loop_head_Next:
  assumes "loop_head a st = Next st1"
  shows "evidence_rows st1 = evidence_rows st \<and> idx st1 = idx st \<and> idx st1 < length (queue st1)
         \<and> visited st1 = visited st \<and> ticks st1 = ticks st
         \<and> (st1 = st \<or> (\<not> did_search st \<and> did_search st1))"
  using assms enqueue_public_search_did[of a st]
  by (auto simp add: loop_head_def Let_def split: if_splits)

lemma visit_Next:
  assumes "visit a st = Next st'"
  shows "idx st' = idx st + 1
         \<and> ((evidence_rows st' = evidence_rows st \<and> queue st' = queue st \<and> did_search st' = did_search st)
             \<or> length (evidence_rows st') = length (evidence_rows st) + 1)"
  using assms
  by (auto simp add: visit_def Let_def split: if_splits option.splits)


lemma crawl_step_Next:
  assumes "crawl_step a st = Next st'"
  shows "length (evidence_rows st') = length (evidence_rows st) + 1
         \<or> (evidence_rows st' = evidence_rows st
             \<and> ((\<not> did_search st \<and> did_search st')
                 \<or> (did_search st' = did_search st
                     \<and> length (queue st') - idx st' < length (queue st) - idx st)))"
proof -
  from assms obtain st1 where h: "loop_head a st = Next st1" and v: "visit a st1 = Next st'"
    by (auto simp add: crawl_step_def split: flow.splits)
  from loop_head_Next[OF h] visit_Next[OF v] show ?thesis by auto
qed

function crawl_loop :: "crawl_args \<Rightarrow> crawl_state \<Rightarrow> crawl_state" where
  "crawl_loop a st =
     (if int (length (evidence_rows st)) < max_pages (a_cfg a) then
        (case crawl_step a st of
           Break st1 \<Rightarrow> st1
         | Next st1 \<Rightarrow> crawl_loop a (st1\<lparr>ticks := ticks st1 + 1\<rparr>))
      else st)"
  by pat_completeness auto
termination
proof (relation "measures [\<lambda>(a, st). nat (max_pages (a_cfg a)) - length (evidence_rows st),
                           \<lambda>(a, st). if did_search st then 0 else 1,
                           \<lambda>(a, st). length (queue st) - idx st]")
  show "wf (measures [\<lambda>(a, st). nat (max_pages (a_cfg a)) - length (evidence_rows st),
                           \<lambda>(a, st). if did_search st then 0 else 1,
                           \<lambda>(a, st). length (queue st) - idx st])"
    by simp
next
  fix a st st1
  assume lt: "int (length (evidence_rows st)) < max_pages (a_cfg a)"
    and step: "crawl_step a st = Next st1"
  from crawl_step_Next[OF step] lt
  show "((a, st1\<lparr>ticks := ticks st1 + 1\<rparr>), (a, st))
          \<in> measures [\<lambda>(a, st). nat (max_pages (a_cfg a)) - length (evidence_rows st),
                           \<lambda>(a, st). if did_search st then 0 else 1,
                           \<lambda>(a, st). length (queue st) - idx st]"
    by auto
qed

subsection \<open>Relevance and the post-processing\<close>

definition overlap_score :: "pylib \<Rightarrow> pystr \<Rightarrow> pystr list \<Rightarrow> rat" where
  "overlap_score lib t keywords =
     (let low = lower lib t
      in fold (\<lambda>kw score.
                 if kw \<noteq> [] \<and> py_in (lower lib kw) low
                 then score + (if length kw < 5 then 1 else 7 / 5) else score)
           keywords 0)"

definition relevance_keywords :: "pystr list" where
  \<comment> \<open>the list \<^verbatim>\<open>keywords\<close> of \<^verbatim>\<open>_company_relevance_score\<close>; the last eight are CJK words\<close>
  "relevance_keywords =
     [U ''about'', U ''team'', U ''founder'', U ''product'', U ''technology'', U ''case study'',
      U ''news'', U ''press'', U ''partner'', U ''investor'',
      [38364, 26044], [22296, 38538], [29986, 21697], [25216, 34899], [23458, 25142],
      [21512, 20316], [21215, 36039], [26032, 32862]]"

definition REGISTRY_NOISE_TITLE_HINTS :: "pystr list" where
  "REGISTRY_NOISE_TITLE_HINTS =
     [[25628, 23563, 20844, 21496, 21015, 34920], [25152, 26377, 27402, 20154], [21830, 27161],
      [20998, 39006], [21516, 22320, 22336], [30456, 38364, 20844, 21496]]"

definition company_relevance_score ::
  "pylib \<Rightarrow> pystr \<Rightarrow> pystr \<Rightarrow> pystr \<Rightarrow> bool \<Rightarrow> bool \<Rightarrow> pystr \<Rightarrow> rat" where
  "company_relevance_score lib title excerpt company_name is_registry is_official_site crawl_source =
     (let t = lower lib (title @ U '' '' @ excerpt);
          c_low = lower lib (strip lib company_name);
          s1 = (if c_low \<noteq> [] \<and> py_in c_low t then 12 / 5 else 0);
          s2 = s1 + (if is_official_site then 2 else 0);
          s3 = s2 + (if \<not> is_registry then 8 / 5 else 0);
          s4 = s3 + (if crawl_source \<in> set [U ''public_search'', U ''registry_official'',
                                             U ''registry_related'']
                     then 9 / 10 else 0);
          s5 = s4 + min 2 (overlap_score lib t relevance_keywords * (9 / 50));
          s6 = fold (\<lambda>noise s. if py_in (lower lib noise) t then s - 9 / 10 else s)
                 REGISTRY_NOISE_TITLE_HINTS s5
      in py_round s6 3)"

text \<open>A row with the entry \<^verbatim>\<open>relevance_score\<close> that the post-processing adds.\<close>

record scored_row =
  sr_row :: row
  relevance_score :: rat

definition enrich :: "pylib \<Rightarrow> pystr \<Rightarrow> row \<Rightarrow> scored_row" where
  "enrich lib company_name r =
     \<lparr>sr_row = r,
      relevance_score =
        company_relevance_score lib (row_title r) (row_excerpt r) company_name
          (row_source_type r = U ''registry'') (row_is_official_site r) (row_crawl_source r)\<rparr>"

definition sort_key_of :: "scored_row \<Rightarrow> rat \<times> nat" where
  \<comment> \<open>\<^verbatim>\<open>(float(x.get("relevance_score") or 0), int(x.get("content_chars") or 0))\<close>\<close>
  "sort_key_of x = (relevance_score x, row_content_chars (sr_row x))"

definition cap_key :: "scored_row \<Rightarrow> pystr" where
  \<comment> \<open>\<^verbatim>\<open>str(row.get("domain") or "unknown")\<close>\<close>
  "cap_key x = (if row_domain (sr_row x) = [] then U ''unknown'' else row_domain (sr_row x))"

fun domain_cap_loop ::
  "int \<Rightarrow> (pystr \<rightharpoonup> nat) \<Rightarrow> scored_row list \<Rightarrow> scored_row list \<Rightarrow> scored_row list" where
  "domain_cap_loop mp domain_cap out [] = out"
| "domain_cap_loop mp domain_cap out (x # xs) =
     (let cap = (case domain_cap (cap_key x) of None \<Rightarrow> 0 | Some n \<Rightarrow> n) in
      if cap \<ge> 4 then domain_cap_loop mp domain_cap out xs
      else if int (length (out @ [x])) \<ge> mp then out @ [x]
      else domain_cap_loop mp (domain_cap(cap_key x \<mapsto> cap + 1)) (out @ [x]) xs)"

definition prioritize_company_evidence ::
  "pylib \<Rightarrow> row list \<Rightarrow> pystr \<Rightarrow> int \<Rightarrow> scored_row list" where
  "prioritize_company_evidence lib rows company_name mp =
     (if rows = [] then []
      else domain_cap_loop mp Map.empty []
             (py_sort_desc sort_key_of (map (enrich lib company_name) rows)))"

definition collect_company_evidence ::
  "pylib \<Rightarrow> world \<Rightarrow> crawl_config \<Rightarrow> pystr \<Rightarrow> pystr list \<Rightarrow> pystr
     \<Rightarrow> scored_row list \<times> crawl_state" where
  \<comment> \<open>the evidence list returned, and the final values of the local variables, from
      which the trace is built\<close>
  "collect_company_evidence lib w cfg primary_url extra_urls company_name =
     (let a = \<lparr>a_lib = lib, a_world = w, a_cfg = cfg,
                a_official_url = sanitize_url_for_crawl w primary_url,
                a_company_name = company_name\<rparr>;
          st = crawl_loop a (initial_state a extra_urls)
      in (prioritize_company_evidence lib (evidence_rows st) company_name (max_pages cfg), st))"

definition signature_of :: "pylib \<Rightarrow> row \<Rightarrow> pystr" where
  \<comment> \<open>the de-duplication signature of an accepted page\<close>
  "signature_of lib r = content_signature lib (row_title r) (row_excerpt r)"

subsection \<open>Notions used to state the properties of the crawler\<close>


definition is_registry_row :: "row \<Rightarrow> bool" where
  "is_registry_row r \<longleftrightarrow> row_source_type r = U ''registry''"

definition budget_inv :: "crawl_args \<Rightarrow> crawl_state \<Rightarrow> bool" where
  "budget_inv a st \<longleftrightarrow>
     int (length (evidence_rows st)) \<le> max_pages (a_cfg a)
     \<and> internal_pages st = length (filter row_is_official_site (evidence_rows st))
     \<and> external_pages st = length (filter (\<lambda>r. \<not> row_is_official_site r) (evidence_rows st))
     \<and> registry_pages st = length (filter is_registry_row (evidence_rows st))
     \<and> int (external_pages st) \<le> max_external_pages (a_cfg a)
     \<and> int (registry_pages st) \<le> max_registry_pages (a_cfg a)"

definition dedup_inv :: "crawl_args \<Rightarrow> crawl_state \<Rightarrow> bool" where
  "dedup_inv a st \<longleftrightarrow>
     distinct (visited st)
     \<and> set (map row_url (evidence_rows st)) \<subseteq> set (visited st)
     \<and> distinct (map row_url (evidence_rows st))
     \<and> signature_of (a_lib a) ` set (evidence_rows st) \<subseteq> seen_signatures st
     \<and> distinct (map (signature_of (a_lib a)) (evidence_rows st))"

definition cap_counts :: "(pystr \<rightharpoonup> nat) \<Rightarrow> scored_row list \<Rightarrow> bool" where
  "cap_counts dc out \<longleftrightarrow>
     (\<forall>d. (case dc d of None \<Rightarrow> 0 | Some n \<Rightarrow> n) = length (filter (\<lambda>x. cap_key x = d) out)
          \<and> length (filter (\<lambda>x. cap_key x = d) out) \<le> 4)"

definition crawl_args_of :: "pylib \<Rightarrow> world \<Rightarrow> crawl_config \<Rightarrow> pystr \<Rightarrow> pystr \<Rightarrow> crawl_args" where
  "crawl_args_of lib w cfg primary_url company_name =
     \<lparr>a_lib = lib, a_world = w, a_cfg = cfg,
      a_official_url = sanitize_url_for_crawl w primary_url,
      a_company_name = company_name\<rparr>"




subsection \<open>A crawl on which the examples are evaluated\<close>

text \<open>
  A site of eight pages and one page of another domain. \<^verbatim>\<open>/index\<close> repeats the home
  page, \<^verbatim>\<open>/empty\<close> is too short, the four product pages tie on the relevance score.
\<close>

definition page_body :: "string \<Rightarrow> pystr" where
  "page_body s = U s @ U '' - '' @ replicate 80 120"

definition site :: "(pystr \<times> pystr) list" where
  "site =
     [(U ''https://acme.example/'', page_body ''Acme home: about team product''),
      (U ''https://acme.example/about'', page_body ''About Acme and the founder''),
      (U ''https://acme.example/index'', page_body ''Acme home: about team product''),
      (U ''https://acme.example/empty'', U ''too short''),
      (U ''https://acme.example/p1'', page_body ''Acme product one''),
      (U ''https://acme.example/p2'', page_body ''Acme product two with a longer description''),
      (U ''https://acme.example/p3'', page_body ''Acme press room''),
      (U ''https://acme.example/p4'', page_body ''Acme partner list''),
      (U ''https://news.example/acme'', page_body ''News: Acme raises funding'')]"

definition example_world :: world where
  "example_world =
     \<lparr>sanitize_url_for_crawl = (\<lambda>u. u),
      query_no = (\<lambda>u. []),
      build_internal_seed_urls =
        (\<lambda>u. [u, u @ U ''about'', u @ U ''index'', u @ U ''empty'', u @ U ''p1'', u @ U ''p2'',
              u @ U ''p3'', u @ U ''p4'']),
      parent_urls = (\<lambda>u. []),
      discover_sitemap_urls = (\<lambda>u n. []),
      fetch_html = (\<lambda>tick u. case map_of site u of None \<Rightarrow> [] | Some h \<Rightarrow> h),
      fetch_text = (\<lambda>tick u. []),
      soup_text = (\<lambda>html. html),
      extract_page_title = (\<lambda>html. take 12 html),
      extract_internal_links = (\<lambda>u html n. [U ''https://acme.example/'']),
      extract_candidate_company_links = (\<lambda>u html c. []),
      extract_official_site_candidates = (\<lambda>u html c. []),
      extract_related_public_urls = (\<lambda>html c n. []),
      extract_external_signal_links = (\<lambda>u html c. [U ''https://news.example/acme'']),
      search_company_public_urls = (\<lambda>c u n rows. [U ''https://news.example/acme'']),
      over_budget = (\<lambda>tick. False)\<rparr>"

definition example_crawl_config :: crawl_config where
  "example_crawl_config =
     \<lparr>DD_COMPANY_MAX_PAGES = 16, DD_COMPANY_MIN_PAGES = 6, DD_COMPANY_INTERNAL_MAX_DEPTH = 2,
      DD_COMPANY_INTERNAL_MAX_LINKS = 180, DD_COMPANY_SITEMAP_MAX_URLS = 100,
      DD_COMPANY_EXTERNAL_MAX_URLS = 24, DD_COMPANY_MAX_REGISTRY_PAGES = 8,
      DD_COMPANY_MAX_EXTERNAL_PAGES = 12, DD_COMPANY_ENABLE_WEB_SEARCH = True,
      DD_COMPANY_ALWAYS_WEB_SEARCH = True\<rparr>"

definition example_crawl :: "scored_row list \<times> crawl_state" where
  "example_crawl = collect_company_evidence example_lib example_world example_crawl_config
     (U ''https://acme.example/'') [] (U ''Acme'')"

definition example_summary ::
  "(pystr list \<times> pystr list \<times> rat list \<times> nat list)
     \<times> (pystr list \<times> pystr list) \<times> pystr list \<times> status list \<times> nat \<times> nat \<times> nat" where
  \<comment> \<open>what the example crawl returns and the final values of its local variables\<close>
  "example_summary =
     (case example_crawl of (out, st) \<Rightarrow>
        ((map (row_url \<circ> sr_row) out, map (row_domain \<circ> sr_row) out, map relevance_score out,
          map (row_content_chars \<circ> sr_row) out),
         (map row_url (evidence_rows st), map row_domain (evidence_rows st)),
         visited st, map snd (trace_steps st),
         internal_pages st, external_pages st, registry_pages st))"

section \<open>The research orchestrator (\<^verbatim>\<open>deep_research_agent.py\<close>)\<close>

text \<open>
  JSON values, for the parts of a report that the orchestrator only passes on
  (citations, and the report that \<^verbatim>\<open>_final_write\<close> returns).
\<close>

datatype json = JNull | JBool bool | JNum rat | JStr pystr | JList "json list"
  | JDict "(pystr \<times> json) list"

definition research_domain :: "pylib \<Rightarrow> pystr \<Rightarrow> pystr" where
  \<comment> \<open>\<^verbatim>\<open>_domain\<close>: \<^verbatim>\<open>(urlparse(url).netloc or "").lower().replace("www.", "")\<close>, and
      \<^verbatim>\<open>""\<close> on an exception\<close>
  "research_domain lib u =
     (case netloc lib u of None \<Rightarrow> [] | Some n \<Rightarrow> py_remove (U ''www.'') (lower lib n))"

text \<open>The dataclass \<^verbatim>\<open>TaskSpec\<close>; \<^verbatim>\<open>keywords\<close> is the field \<open>task_keywords\<close>.\<close>

record TaskSpec =
  task_id :: pystr
  task_name :: pystr
  objective :: pystr
  task_keywords :: "pystr list"
  queries :: "pystr list"

text \<open>The five tasks of \<^verbatim>\<open>_build_tasks\<close>, with the literals of the source.\<close>

definition build_tasks :: "pylib \<Rightarrow> pystr \<Rightarrow> pystr \<Rightarrow> TaskSpec list" where
  "build_tasks lib company_name company_url =
     (let d = research_domain lib company_url;
          site_q = (if d \<noteq> [] then [U ''site:'' @ d @ U '' '' @ company_name] else [company_name])
      in [\<lparr>task_id = U ''business'',
        task_name = [21830, 26989, 33287, 29151, 36939, 35519, 26597],
        objective = [30906, 35469, 24066, 22580, 35215, 27169, 12289, 31478, 29229, 23565, 25163,
           12289, 29986, 21697, 23450, 20301, 12289, 23458, 25142, 26696, 20363, 12289, 25910,
           36027, 27169, 24335, 33287, 29151, 36939, 35338, 34399],
        task_keywords = [[24066, 22580],
          [31478, 29229],
          [23458, 25142],
          [26696, 20363],
          U ''pricing'',
          U ''revenue'',
          U ''KPI'',
          U ''GTM'',
          [29986, 21697]],
        queries = site_q
        @ [[34] @ company_name @ [34] @ U '' '' @ [24066, 22580] @ U '' '' @ [31478, 29229],
          [34] @ company_name @ [34] @ U '' pricing OR '' @ [20729, 26684] @ U '' OR '' @ [25910,
             36027],
          [34] @ company_name @ [34] @ U '' customer OR case study OR '' @ [23458, 25142, 26696,
             20363],
          [34] @ company_name @ [34] @ U '' revenue OR ARR OR '' @ [29151, 25910]]\<rparr>,
       \<lparr>task_id = U ''financial'',
        task_name = [36001, 21209, 33287, 31237, 21209, 35519, 26597],
        objective = [25628, 23563, 34701, 36039, 12289, 32929, 27402, 12289, 20272, 20540, 12289,
           36001, 21209, 25581, 38706, 12289, 31237, 21209, 25110, 20661, 21209, 31561, 20844,
           38283, 35338, 34399],
        task_keywords = [[34701, 36039],
          U ''funding'',
          U ''valuation'',
          U ''investor'',
          [32929, 26481],
          U ''cap table'',
          [36001, 21209],
          [31237]],
        queries = site_q
        @ [[34] @ company_name @ [34] @ U '' '' @ [34701, 36039],
          [34] @ company_name @ [34] @ U '' funding'',
          [34] @ company_name @ [34] @ U '' investor'',
          [34] @ company_name @ [34] @ U '' valuation'',
          [34] @ company_name @ [34] @ U '' '' @ [32929, 26481] @ U '' OR '' @ [33891,
             20107] @ U '' OR '' @ [22686, 36039]]\<rparr>,
       \<lparr>task_id = U ''legal'',
        task_name = [27861, 24459, 33287, 21512, 32004, 35519, 26597],
        objective = [27298, 35222, 35380, 35359, 12289, 27861, 35215, 21512, 35215, 12289, 26781,
           27454, 12289, 38577, 31169, 25919, 31574, 12289, 23560, 21033, 33287, 21830, 27161,
           35338, 34399],
        task_keywords = [[35380, 35359],
          U ''lawsuit'',
          U ''compliance'',
          U ''terms'',
          U ''privacy'',
          [23560, 21033],
          [21830, 27161],
          U ''license''],
        queries = site_q
        @ [[34] @ company_name @ [34] @ U '' lawsuit OR litigation'',
          [34] @ company_name @ [34] @ U '' terms of service'',
          [34] @ company_name @ [34] @ U '' privacy policy'',
          [34] @ company_name @ [34] @ U '' patent OR '' @ [23560, 21033],
          [34] @ company_name @ [34] @ U '' trademark OR '' @ [21830, 27161]]\<rparr>,
       \<lparr>task_id = U ''team'',
        task_name = [22296, 38538, 33021, 21147, 35519, 26597],
        objective = [30906, 35469, 21109, 36774, 20154, 32972, 26223, 12289, 22296, 38538, 38913,
           38754, 12289, 25307, 32856, 35338, 34399, 12289, 25216, 34899, 33287, 21830, 26989,
           32887, 32570, 37197, 32622],
        task_keywords = [U ''founder'',
          U ''team'',
          U ''leadership'',
          U ''linkedin'',
          U ''careers'',
          U ''jobs'',
          [25307, 32856],
          [24501, 25165]],
        queries = site_q
        @ [[34] @ company_name @ [34] @ U '' founder'',
          [34] @ company_name @ [34] @ U '' team'',
          [34] @ company_name @ [34] @ U '' linkedin'',
          [34] @ company_name @ [34] @ U '' careers OR jobs'',
          [34] @ company_name @ [34] @ U '' hiring'']\<rparr>,
       \<lparr>task_id = U ''technology'',
        task_name = [29986, 21697, 33287, 25216, 34899, 35519, 26597],
        objective = [30906, 35469, 25216, 34899, 36335, 32218, 12289, 29986, 21697, 25991, 20214,
           12289, 37096, 32626, 12289, 26550, 27083, 12289, 35722, 26356, 26085, 35468, 33287,
           24037, 31243, 23526, 20316, 35338, 34399],
        task_keywords = [U ''docs'',
          U ''API'',
          U ''architecture'',
          U ''deploy'',
          U ''roadmap'',
          U ''changelog'',
          U ''github'',
          [25216, 34899],
          [26550, 27083]],
        queries = site_q
        @ [[34] @ company_name @ [34] @ U '' docs OR documentation'',
          [34] @ company_name @ [34] @ U '' API'',
          [34] @ company_name @ [34] @ U '' architecture'',
          [34] @ company_name @ [34] @ U '' github'',
          [34] @ company_name @ [34] @ U '' changelog OR roadmap'']\<rparr>])"

record scope =
  sc_company_name :: pystr
  sc_company_url :: pystr
  sc_objective :: pystr
  sc_focus_dimensions :: "pystr list"
  sc_vc_thesis :: pystr
  sc_preferred_sectors :: "pystr list"
  sc_output_requirement :: pystr

definition build_scope_brief ::
  "pylib \<Rightarrow> pystr \<Rightarrow> pystr \<Rightarrow> pystr \<Rightarrow> pystr list option \<Rightarrow> scope" where
  "build_scope_brief lib company_name company_url thesis preferred_sectors =
     \<lparr>sc_company_name = company_name,
      sc_company_url = company_url,
      sc_objective =
        [37341, 23565, 21109, 25237, 25237, 36039, 27770, 31574, 23436, 25104, 21487, 36861, 28335,
          20358, 28304, 30340, 20844, 21496, 28145, 24230, 30433, 32887, 35519, 26597,
          65288] @ U ''DD'' @ [65289, 22577, 21578, 12290],
      sc_focus_dimensions =
        [[21830, 26989, 33287, 29151, 36939, 35519, 26597, 65288, 24066, 22580, 12289, 31478, 29229,
          12289, 29986, 21697, 23450, 20301, 12289] @ U ''KPI'' @ [65289],
                  [36001, 21209, 33287, 31237, 21209, 35519, 26597, 65288, 34701, 36039, 12289, 32929,
                    27402, 12289, 36001, 21209, 25581, 38706, 33287, 36039, 37329, 25928, 29575, 65289],
                  [27861, 24459, 33287, 21512, 32004, 35519, 26597, 65288] @ U ''IP'' @ [12289, 35380,
                    35359, 12289, 21512, 35215, 12289, 37325, 35201, 26781, 27454, 65289],
                  [22296, 38538, 33021, 21147, 35519, 26597, 65288, 21109, 36774, 20154, 32972, 26223,
                    12289, 32068, 32340, 20998, 24037, 12289, 25307, 32856, 35338, 34399, 65289],
                  [29986, 21697, 33287, 25216, 34899, 35519, 26597, 65288, 25216, 34899, 36335, 32218,
                    12289, 25104, 29087, 24230, 12289, 35703, 22478, 27827, 12289, 37096, 32626, 65289]],
      sc_vc_thesis = thesis,
      sc_preferred_sectors =
        take 8 (filter (\<lambda>x. strip lib x \<noteq> [])
                  (case preferred_sectors of None \<Rightarrow> [] | Some xs \<Rightarrow> xs)),
      sc_output_requirement =
        [20677, 25972, 29702, 33287, 25237, 36039] @ U '' DD '' @ [30452, 25509, 30456, 38364, 36039,
          35338, 65292, 24341, 29992, 20358, 28304] @ U '' URL'' @ [65292, 26126, 30906, 27161, 35352,
          36039, 26009, 32570, 21475, 33287, 24453, 39511, 35657, 20551, 35373, 12290]\<rparr>"

text \<open>
  A sub-report: the dict that \<^verbatim>\<open>_run_sub_agent\<close> returns, or the placeholder that
  stands for it. The placeholder has no entry \<^verbatim>\<open>searched_urls\<close>.
\<close>

record sub_report =
  sr_task_id :: pystr
  sr_name :: pystr
  sr_objective :: pystr
  sr_summary :: pystr
  sr_key_findings :: "pystr list"
  sr_gaps :: "pystr list"
  sr_citations :: "json list"
  sr_evidence_count :: nat
  sr_elapsed_sec :: rat
  sr_searched_urls :: "nat option"

text \<open>
  What the work of one sub-agent yields: the searches, the fetches and the summary of
  \<^verbatim>\<open>_run_sub_agent\<close> are a parameter of the model, which answers with the values
  from which the returned dict is built, or with the exception that leaves the
  function.
\<close>

record agent_work =
  w_summary :: pystr
  w_key_findings :: "pystr list"
  w_gaps :: "pystr list"
  w_citations :: "json list"
  w_picked :: nat             \<comment> \<open>\<^verbatim>\<open>len(picked)\<close>\<close>
  w_elapsed_sec :: rat
  w_queue_len :: nat          \<comment> \<open>\<^verbatim>\<open>len(queue)\<close>\<close>

record final_report =
  f_body :: json
  f_citations :: "json list"  \<comment> \<open>\<^verbatim>\<open>final.get("citations", [])\<close>\<close>

text \<open>
  What the world answers during one run: the environment variable that sizes the
  thread pool (\<open>None\<close> when \<^verbatim>\<open>int()\<close> does not parse it), the work of each sub-agent,
  the order in which \<^verbatim>\<open>as_completed\<close> yields the futures (as indices into the list of
  tasks), the report \<^verbatim>\<open>_final_write\<close> returns, the length of the JSON text of the
  scope, and the elapsed time.
\<close>

record research_world =
  DD_DEEP_RESEARCH_MAX_WORKERS :: "int option"
  sub_agent_work :: "TaskSpec \<Rightarrow> pystr \<Rightarrow> pystr \<Rightarrow> pystr list \<Rightarrow> exn + agent_work"
  completion_order :: "nat list"
  final_write :: "scope \<Rightarrow> sub_report list \<Rightarrow> final_report"
  brief_len :: "scope \<Rightarrow> nat"
  run_elapsed_sec :: rat

definition max_workers :: "research_world \<Rightarrow> exn + int" where
  \<comment> \<open>\<^verbatim>\<open>max(2, min(8, int(os.getenv("DD_DEEP_RESEARCH_MAX_WORKERS", "4"))))\<close>\<close>
  "max_workers w =
     (case getenv_int (DD_DEEP_RESEARCH_MAX_WORKERS w) of
        Inl exc \<Rightarrow> Inl exc
      | Inr v \<Rightarrow> Inr (max 2 (min 8 v)))"

definition run_sub_agent ::
  "research_world \<Rightarrow> TaskSpec \<Rightarrow> pystr \<Rightarrow> pystr \<Rightarrow> pystr list \<Rightarrow> exn + sub_report" where
  "run_sub_agent w task company_name company_url seed_urls =
     (case sub_agent_work w task company_name company_url seed_urls of
        Inl exc \<Rightarrow> Inl exc
      | Inr k \<Rightarrow>
          Inr \<lparr>sr_task_id = task_id task,
               sr_name = task_name task,
               sr_objective = objective task,
               sr_summary = w_summary k,
               sr_key_findings = take 10 (filter (\<lambda>x. x \<noteq> []) (w_key_findings k)),
               sr_gaps = take 10 (filter (\<lambda>x. x \<noteq> []) (w_gaps k)),
               sr_citations = take 15 (w_citations k),
               sr_evidence_count = w_picked k,
               sr_elapsed_sec = w_elapsed_sec k,
               sr_searched_urls = Some (w_queue_len k)\<rparr>)"

definition placeholder :: "TaskSpec \<Rightarrow> exn \<Rightarrow> sub_report" where
  \<comment> \<open>the dict built in \<^verbatim>\<open>except Exception as exc\<close>\<close>
  "placeholder task exc =
     \<lparr>sr_task_id = task_id task,
      sr_name = task_name task,
      sr_objective = objective task,
      sr_summary = [23376, 20195, 29702, 22519, 34892, 22833, 25943, 65306] @ exc,
      sr_key_findings = [],
      sr_gaps =
        [[23376, 20195, 29702, 22833, 25943, 65292, 35531, 31245, 24460, 37325, 35430, 25110, 25913,
          29992, 26356, 26126, 30906, 30340, 20844, 21496, 21517, 31281] @ U '' / URL'' @ [12290]],
      sr_citations = [],
      sr_evidence_count = 0,
      sr_elapsed_sec = 0,
      sr_searched_urls = None\<rparr>"

definition sub_report_of ::
  "research_world \<Rightarrow> pystr \<Rightarrow> pystr \<Rightarrow> pystr list \<Rightarrow> TaskSpec \<Rightarrow> sub_report" where
  \<comment> \<open>the body of \<^verbatim>\<open>for fut in as_completed(futs)\<close> for the future of one task\<close>
  "sub_report_of w company_name company_url seed_urls task =
     (case run_sub_agent w task company_name company_url seed_urls of
        Inr sub \<Rightarrow> sub
      | Inl exc \<Rightarrow> placeholder task exc)"

datatype trace_entry =
    ScopeDone nat nat           \<comment> \<open>\<^verbatim>\<open>tasks_planned\<close>, \<^verbatim>\<open>brief_len\<close>\<close>
  | ResearchDone nat nat nat    \<comment> \<open>\<^verbatim>\<open>tasks\<close>, \<^verbatim>\<open>total_evidence\<close>, \<^verbatim>\<open>total_searched_urls\<close>\<close>
  | WriteDone nat               \<comment> \<open>\<^verbatim>\<open>citation_count\<close>\<close>

record research_result =
  r_scope :: scope
  r_sub_reports :: "sub_report list"
  r_final :: final_report
  r_trace :: "trace_entry list"
  r_elapsed_sec :: rat

definition research_name :: "pylib \<Rightarrow> pystr \<Rightarrow> pystr \<Rightarrow> pystr" where
  \<comment> \<open>\<^verbatim>\<open>(company_name or "").strip() or _domain(company_url).split(".")[0]\<close>\<close>
  "research_name lib company_name company_url =
     (if strip lib company_name \<noteq> [] then strip lib company_name
      else hd (py_split 46 (research_domain lib company_url)))"

definition research_seeds :: "pylib \<Rightarrow> pystr list option \<Rightarrow> pystr list" where
  \<comment> \<open>\<^verbatim>\<open>[str(x).strip() for x in (seed_evidence_urls or []) if str(x).strip()]\<close>\<close>
  "research_seeds lib seed_evidence_urls =
     filter (\<lambda>x. x \<noteq> [])
       (map (strip lib) (case seed_evidence_urls of None \<Rightarrow> [] | Some xs \<Rightarrow> xs))"

text \<open>
  \<^verbatim>\<open>run_company_deep_research\<close>. The pool refuses a size that is not positive with
  \<^verbatim>\<open>ValueError\<close>. The futures are collected in the order of completion and the list is
  then sorted by \<^verbatim>\<open>task_id\<close> with the stable sort of Python.
\<close>

definition run_company_deep_research ::
  "pylib \<Rightarrow> research_world \<Rightarrow> pystr \<Rightarrow> pystr \<Rightarrow> pystr \<Rightarrow> pystr list option \<Rightarrow> pystr list option
     \<Rightarrow> exn + research_result" where
  "run_company_deep_research lib w company_name0 company_url0 thesis preferred_sectors
       seed_evidence_urls =
     (let company_name = research_name lib company_name0 company_url0;
          company_url = strip lib company_url0;
          seed_urls = research_seeds lib seed_evidence_urls;
          sc = build_scope_brief lib company_name company_url thesis preferred_sectors;
          tasks = build_tasks lib company_name company_url;
          trace0 = [ScopeDone (length tasks) (brief_len w sc)]
      in (case max_workers w of
            Inl exc \<Rightarrow> Inl exc
          | Inr mw \<Rightarrow>
              if min mw (int (length tasks)) \<le> 0 then Inl (U ''ValueError'')
              else
                let collected = map (\<lambda>i. sub_report_of w company_name company_url seed_urls
                                            (tasks ! i)) (completion_order w);
                    sub_reports = sort_key sr_task_id collected;
                    trace1 = trace0 @
                      [ResearchDone (length sub_reports)
                         (sum_list (map sr_evidence_count sub_reports))
                         (sum_list (map (\<lambda>x. case sr_searched_urls x of
                                                 None \<Rightarrow> 0 | Some n \<Rightarrow> n) sub_reports))];
                    final = final_write w sc sub_reports;
                    trace2 = trace1 @ [WriteDone (length (f_citations final))]
                in Inr \<lparr>r_scope = sc, r_sub_reports = sub_reports, r_final = final,
                        r_trace = trace2, r_elapsed_sec = run_elapsed_sec w\<rparr>))"

text \<open>
  The entry point \<^verbatim>\<open>generate_vc_dd_report_direct\<close> of \<^verbatim>\<open>dd_reports.py\<close>, up to its
  checks of the arguments. \<open>get_vc_profile\<close> is the lookup in the store; \<open>continue\<close>
  stands for the rest of the function, which registers the candidate and calls
  \<^verbatim>\<open>generate_vc_dd_report\<close>, where the research is started.
\<close>

definition no_profile_error :: exn where
  "no_profile_error = [23578, 26410, 24314, 31435] @ U '' VC profile''"

definition no_url_error :: exn where
  "no_url_error =
     [21151, 33021, 20108, 35531, 25552, 20379, 20844, 21496, 23448, 32178] @ U '' URL'' @ [65288,
       31995, 32113, 26371, 20197, 27492, 32178, 31449, 28858, 20027, 20570, 28145,
       24230] @ U '' DD'' @ [65289]"

definition generate_vc_dd_report_direct ::
  "pylib \<Rightarrow> (int \<Rightarrow> 'p option) \<Rightarrow> ('p \<Rightarrow> pystr \<Rightarrow> pystr \<Rightarrow> pystr list option \<Rightarrow> exn + 'r)
     \<Rightarrow> int \<Rightarrow> pystr option \<Rightarrow> pystr option \<Rightarrow> pystr list option \<Rightarrow> exn + 'r" where
  "generate_vc_dd_report_direct lib get_vc_profile continue user_id company_name company_url
       extra_urls =
     (case get_vc_profile user_id of
        None \<Rightarrow> Inl no_profile_error
      | Some profile \<Rightarrow>
          let company_name1 = strip lib (case company_name of None \<Rightarrow> [] | Some n \<Rightarrow> n);
              company_url1 = strip lib (case company_url of None \<Rightarrow> [] | Some u \<Rightarrow> u)
          in if company_url1 = [] then Inl no_url_error
             else continue profile company_name1 company_url1 extra_urls)"

subsection \<open>Notions and instances used to state the properties of the orchestrator\<close>

text \<open>
  The identifiers of the five tasks in the order of \<^verbatim>\<open>_build_tasks\<close>, which is their
  order as strings; a run by its result; a run in which the task \<^verbatim>\<open>legal\<close> fails and the
  futures complete in the order team, financial, technology, business, legal; and a
  store with the profile of user 1, with a continuation that returns the URL it is given.
\<close>

definition task_ids :: "pystr list" where
  "task_ids = [U ''business'', U ''financial'', U ''legal'', U ''team'', U ''technology'']"

definition research_result_of :: "exn + research_result \<Rightarrow> research_result option" where
  "research_result_of r = (case r of Inl exc \<Rightarrow> None | Inr x \<Rightarrow> Some x)"

definition example_research_world :: research_world where
  "example_research_world =
     \<lparr>DD_DEEP_RESEARCH_MAX_WORKERS = Some 4,
      sub_agent_work = (\<lambda>task company_name company_url seed_urls.
         if task_id task = U ''legal'' then Inl (U ''Read timed out'')
         else Inr \<lparr>w_summary = U ''summary of '' @ task_id task, w_key_findings = [],
                    w_gaps = [], w_citations = [], w_picked = 2, w_elapsed_sec = 1,
                    w_queue_len = 7\<rparr>),
      completion_order = [3, 1, 4, 0, 2],
      final_write = (\<lambda>sc subs. \<lparr>f_body = JNull, f_citations = []\<rparr>),
      brief_len = (\<lambda>sc. 0),
      run_elapsed_sec = 5\<rparr>"

definition example_get_vc_profile :: "int \<Rightarrow> unit option" where
  "example_get_vc_profile user_id = (if user_id = 1 then Some () else None)"

definition example_continue :: "unit \<Rightarrow> pystr \<Rightarrow> pystr \<Rightarrow> pystr list option \<Rightarrow> exn + pystr" where
  "example_continue profile company_name company_url extra_urls = Inr company_url"

section \<open>Properties of the fetch layer\<close>

subsection \<open>The retry loop, one equation per way through its body\<close>

declare fetch_attempts.simps [simp del]

lemma sleep_backoff_small:
  "a < 1024 \<Longrightarrow> sleep_backoff env a = Inr (Sleep (min 6 (1 / 2 * 2 ^ a) + jitter env a))"
  by (simp add: sleep_backoff_def backoff_base_def)

lemma sleep_backoff_large: "1024 \<le> a \<Longrightarrow> sleep_backoff env a = Inl overflow_error"
  by (simp add: sleep_backoff_def backoff_base_def)

lemma attempts_trace_same: "attempts_trace env proxies a a = [Get a (choose_proxy proxies a)]"
  by (simp add: attempts_trace_def)

lemma attempts_trace_step:
  "a < n \<Longrightarrow> attempts_trace env proxies a n =
     Get a (choose_proxy proxies a) # Sleep (min 6 (1 / 2 * 2 ^ a) + jitter env a)
       # attempts_trace env proxies (Suc a) n"
  by (simp add: attempts_trace_def upt_conv_Cons)

lemma status_after_one_resp:
  "session_get env a (choose_proxy proxies a) = Inr (sc, body) \<Longrightarrow>
   status_after env proxies [a] s = sc"
  by (simp add: status_after_def)

lemma status_after_one_exc:
  "session_get env a (choose_proxy proxies a) = Inl exc \<Longrightarrow>
   status_after env proxies [a] s = s"
  by (simp add: status_after_def)

lemma status_after_step:
  "a < n \<Longrightarrow> status_after env proxies [a..<Suc n] s
     = status_after env proxies [Suc a..<Suc n] (status_after env proxies [a] s)"
  by (simp add: status_after_def upt_conv_Cons)

lemma fetch_attempts_ok:
  "int a < retries \<Longrightarrow> session_get env a (choose_proxy proxies a) = Inr (200, body) \<Longrightarrow>
   fetch_attempts lib env proxies retries u source a st =
     Inr (Some \<lparr>res_ok = True, res_status_code = 200, res_text = body, res_url = u,
                 res_from_cache = False, res_error = None\<rparr>,
          st\<lparr>last_status := 200, db := persist_success env u body source (db st),
             effects := effects st @ [Get a (choose_proxy proxies a)]\<rparr>)"
  by (subst fetch_attempts.simps) (simp add: Let_def)

lemma fetch_attempts_retry_status:
  "int a < retries - 1 \<Longrightarrow> a < 1024 \<Longrightarrow>
   session_get env a (choose_proxy proxies a) = Inr (sc, body) \<Longrightarrow>
   sc \<noteq> 200 \<Longrightarrow> retryable sc \<Longrightarrow>
   fetch_attempts lib env proxies retries u source a st =
     fetch_attempts lib env proxies retries u source (Suc a)
       (st\<lparr>last_status := sc,
           effects := effects st @ [Get a (choose_proxy proxies a),
                                    Sleep (min 6 (1 / 2 * 2 ^ a) + jitter env a)]\<rparr>)"
  by (subst fetch_attempts.simps) (simp add: Let_def sleep_backoff_small)

lemma fetch_attempts_overflow_status:
  "int a < retries - 1 \<Longrightarrow> 1024 \<le> a \<Longrightarrow>
   session_get env a (choose_proxy proxies a) = Inr (sc, body) \<Longrightarrow>
   sc \<noteq> 200 \<Longrightarrow> retryable sc \<Longrightarrow>
   fetch_attempts lib env proxies retries u source a st = Inl overflow_error"
  by (subst fetch_attempts.simps) (simp add: Let_def sleep_backoff_large)

lemma fetch_attempts_stop_status:
  "int a < retries \<Longrightarrow> session_get env a (choose_proxy proxies a) = Inr (sc, body) \<Longrightarrow>
   sc \<noteq> 200 \<Longrightarrow> \<not> (retryable sc \<and> int a < retries - 1) \<Longrightarrow>
   fetch_attempts lib env proxies retries u source a st =
     Inr (None, st\<lparr>last_error := Some (U ''HTTP '' @ str_int sc), last_status := sc,
                    effects := effects st @ [Get a (choose_proxy proxies a)]\<rparr>)"
  by (subst fetch_attempts.simps) (auto simp add: Let_def)

lemma fetch_attempts_retry_exc:
  "int a < retries - 1 \<Longrightarrow> a < 1024 \<Longrightarrow>
   session_get env a (choose_proxy proxies a) = Inl exc \<Longrightarrow>
   retryable_exception lib exc \<Longrightarrow>
   fetch_attempts lib env proxies retries u source a st =
     fetch_attempts lib env proxies retries u source (Suc a)
       (st\<lparr>last_error := Some exc,
           effects := effects st @ [Get a (choose_proxy proxies a),
                                    Sleep (min 6 (1 / 2 * 2 ^ a) + jitter env a)]\<rparr>)"
  by (subst fetch_attempts.simps) (simp add: Let_def sleep_backoff_small)

lemma fetch_attempts_overflow_exc:
  "int a < retries - 1 \<Longrightarrow> 1024 \<le> a \<Longrightarrow>
   session_get env a (choose_proxy proxies a) = Inl exc \<Longrightarrow>
   retryable_exception lib exc \<Longrightarrow>
   fetch_attempts lib env proxies retries u source a st = Inl overflow_error"
  by (subst fetch_attempts.simps) (simp add: Let_def sleep_backoff_large)

lemma fetch_attempts_stop_exc:
  "int a < retries \<Longrightarrow> session_get env a (choose_proxy proxies a) = Inl exc \<Longrightarrow>
   \<not> (int a < retries - 1 \<and> retryable_exception lib exc) \<Longrightarrow>
   fetch_attempts lib env proxies retries u source a st =
     Inr (None, st\<lparr>last_error := Some exc,
                    effects := effects st @ [Get a (choose_proxy proxies a)]\<rparr>)"
  by (subst fetch_attempts.simps) (auto simp add: Let_def)

lemma fetch_attempts_done:
  "\<not> int a < retries \<Longrightarrow> fetch_attempts lib env proxies retries u source a st = Inr (None, st)"
  by (subst fetch_attempts.simps) simp

lemma final_outcome_db_only:
  "db st' = db st \<Longrightarrow> final_outcome lib env proxies u source n st' R
     = final_outcome lib env proxies u source n st R"
  by (simp add: final_outcome_def split: sum.splits prod.splits)

lemma attempts_end_stop:
  assumes "int a < retries"
    and "\<not> (transient_failure lib env proxies a \<and> int a < retries - 1)"
    and "fetch_attempts lib env proxies retries u source a st = Inr R"
    and "effects (snd R) = effects st @ [Get a (choose_proxy proxies a)]"
    and "last_status (snd R) = status_after env proxies [a] (last_status st)"
    and "final_outcome lib env proxies u source a st R"
  shows "attempts_end lib env proxies retries u source a st a"
  using assms by (auto simp add: attempts_end_def attempts_trace_same)

lemma attempts_end_overflow:
  assumes "transient_failure lib env proxies a" and "int a < retries - 1" and "1024 \<le> a"
    and "fetch_attempts lib env proxies retries u source a st = Inl overflow_error"
  shows "attempts_end lib env proxies retries u source a st a"
  using assms by (auto simp add: attempts_end_def)

lemma attempts_end_continue:
  assumes tr: "transient_failure lib env proxies a" and lt: "int a < retries - 1"
    and small: "a < 1024"
    and eq: "fetch_attempts lib env proxies retries u source a st
               = fetch_attempts lib env proxies retries u source (Suc a) st'"
    and eff: "effects st' = effects st @ [Get a (choose_proxy proxies a),
                                          Sleep (min 6 (1 / 2 * 2 ^ a) + jitter env a)]"
    and dbeq: "db st' = db st"
    and stat: "last_status st' = status_after env proxies [a] (last_status st)"
    and rest: "attempts_end lib env proxies retries u source (Suc a) st' n"
  shows "attempts_end lib env proxies retries u source a st n"
proof -
  from rest have n: "Suc a \<le> n" "int n < retries"
    "\<forall>k. Suc a \<le> k \<and> k < n \<longrightarrow> transient_failure lib env proxies k \<and> k < 1024"
    by (simp_all add: attempts_end_def)
  have all: "\<forall>k. a \<le> k \<and> k < n \<longrightarrow> transient_failure lib env proxies k \<and> k < 1024"
  proof (intro allI impI)
    fix k assume k: "a \<le> k \<and> k < n"
    show "transient_failure lib env proxies k \<and> k < 1024"
    proof (cases "k = a")
      case True
      then show ?thesis using tr small by simp
    next
      case False
      then have "Suc a \<le> k" using k by simp
      then show ?thesis using n(3) k by blast
    qed
  qed
  have an: "a < n" using n(1) by simp
  show ?thesis
  proof (cases "transient_failure lib env proxies n \<and> int n < retries - 1")
    case True
    with rest have "1024 \<le> n"
      "fetch_attempts lib env proxies retries u source (Suc a) st' = Inl overflow_error"
      by (simp_all add: attempts_end_def)
    with True all n an show ?thesis by (simp add: attempts_end_def eq)
  next
    case False
    with rest obtain R where R:
      "fetch_attempts lib env proxies retries u source (Suc a) st' = Inr R"
      "effects (snd R) = effects st' @ attempts_trace env proxies (Suc a) n"
      "last_status (snd R) = status_after env proxies [Suc a..<Suc n] (last_status st')"
      "final_outcome lib env proxies u source n st' R"
      by (auto simp add: attempts_end_def)
    have 1: "effects (snd R) = effects st @ attempts_trace env proxies a n"
      using R(2) an by (simp add: eff attempts_trace_step)
    have "last_status (snd R) = status_after env proxies [Suc a..<Suc n]
            (status_after env proxies [a] (last_status st))"
      using R(3) by (simp only: stat)
    then have 2: "last_status (snd R) = status_after env proxies [a..<Suc n] (last_status st)"
      by (simp only: status_after_step[OF an])
    have 3: "final_outcome lib env proxies u source n st R"
      using R(4) by (simp add: final_outcome_db_only[OF dbeq])
    from False all n an R(1) 1 2 3 show ?thesis
      unfolding attempts_end_def eq by auto
  qed
qed

lemma fetch_attempts_shape:
  "int a < retries \<Longrightarrow> \<exists>n. attempts_end lib env proxies retries u source a st n"
proof (induction "nat (retries - int a)" arbitrary: a st)
  case 0
  then show ?case by simp
next
  case (Suc m)
  let ?p = "choose_proxy proxies a"
  have m: "m = nat (retries - int (Suc a))" using Suc.hyps(2) by simp
  have IH: "\<exists>n. attempts_end lib env proxies retries u source (Suc a) st' n"
    if "int a < retries - 1" for st'
    using Suc.hyps(1)[OF m, of st'] that by simp
  show ?case
  proof (cases "session_get env a ?p")
    case (Inr resp)
    obtain sc body where resp: "session_get env a ?p = Inr (sc, body)"
      using Inr by (cases resp) simp
    consider (ok) "sc = 200" | (retry) "sc \<noteq> 200" "retryable sc" "int a < retries - 1"
      | (stop) "sc \<noteq> 200" "\<not> (retryable sc \<and> int a < retries - 1)" by blast
    then show ?thesis
    proof cases
      case ok
      have "attempts_end lib env proxies retries u source a st a"
        using ok resp Suc.prems
        by (intro attempts_end_stop[OF Suc.prems _ fetch_attempts_ok])
           (simp_all add: transient_failure_def retryable_def final_outcome_def
              status_after_one_resp)
      then show ?thesis by blast
    next
      case retry
      have tr: "transient_failure lib env proxies a"
        by (simp add: transient_failure_def resp retry)
      show ?thesis
      proof (cases "a < 1024")
        case True
        let ?st' = "st\<lparr>last_status := sc,
           effects := effects st @ [Get a ?p, Sleep (min 6 (1 / 2 * 2 ^ a) + jitter env a)]\<rparr>"
        from IH[OF retry(3), of ?st'] obtain n where
          n: "attempts_end lib env proxies retries u source (Suc a) ?st' n" by blast
        have "attempts_end lib env proxies retries u source a st n"
          by (rule attempts_end_continue[OF tr retry(3) True
                fetch_attempts_retry_status[OF retry(3) True resp retry(1,2)] _ _ _ n])
             (simp_all add: status_after_one_resp[OF resp])
        then show ?thesis by blast
      next
        case False
        then have big: "1024 \<le> a" by simp
        have "attempts_end lib env proxies retries u source a st a"
          by (rule attempts_end_overflow[OF tr retry(3) big
                fetch_attempts_overflow_status[OF retry(3) big resp retry(1,2)]])
        then show ?thesis by blast
      qed
    next
      case stop
      have "attempts_end lib env proxies retries u source a st a"
        using stop resp Suc.prems
        by (intro attempts_end_stop[OF Suc.prems _ fetch_attempts_stop_status])
           (auto simp add: transient_failure_def final_outcome_def status_after_one_resp)
      then show ?thesis by blast
    qed
  next
    case (Inl exc)
    show ?thesis
    proof (cases "int a < retries - 1 \<and> retryable_exception lib exc")
      case True
      then have lt: "int a < retries - 1" and re: "retryable_exception lib exc" by simp_all
      have tr: "transient_failure lib env proxies a"
        by (simp add: transient_failure_def Inl re)
      show ?thesis
      proof (cases "a < 1024")
        case small: True
        let ?st' = "st\<lparr>last_error := Some exc,
           effects := effects st @ [Get a ?p, Sleep (min 6 (1 / 2 * 2 ^ a) + jitter env a)]\<rparr>"
        from IH[OF lt, of ?st'] obtain n where
          n: "attempts_end lib env proxies retries u source (Suc a) ?st' n" by blast
        have "attempts_end lib env proxies retries u source a st n"
          by (rule attempts_end_continue[OF tr lt small
                fetch_attempts_retry_exc[OF lt small Inl re] _ _ _ n])
             (simp_all add: status_after_one_exc[OF Inl])
        then show ?thesis by blast
      next
        case False
        then have big: "1024 \<le> a" by simp
        have "attempts_end lib env proxies retries u source a st a"
          by (rule attempts_end_overflow[OF tr lt big
                fetch_attempts_overflow_exc[OF lt big Inl re]])
        then show ?thesis by blast
      qed
    next
      case False
      have "attempts_end lib env proxies retries u source a st a"
        using False Inl Suc.prems
        by (intro attempts_end_stop[OF Suc.prems _ fetch_attempts_stop_exc])
           (auto simp add: transient_failure_def final_outcome_def status_after_one_exc)
      then show ?thesis by blast
    qed
  qed
qed

lemma fetch_url_unfold:
  assumes "config_parses cfg ttl timeout"
  shows "fetch_url lib cfg env d u source_key ttl timeout =
    (case fetch_attempts lib env (PROXY_POOL_URLS cfg) (retries_of cfg) u (source_of u source_key) 0
            \<lparr>last_error = None, last_status = 0, db = d, effects = []\<rparr> of
       Inl exc \<Rightarrow> Inl exc
     | Inr R \<Rightarrow>
        (case fst R of
           Some result \<Rightarrow> Inr (result, db (snd R), effects (snd R))
         | None \<Rightarrow>
            Inr (fst (serve_fallback env u (source_of u source_key) (cache_hours_of cfg ttl) (snd R)),
                 snd (serve_fallback env u (source_of u source_key) (cache_hours_of cfg ttl) (snd R)),
                 effects (snd R))))"
proof -
  obtain m where m: "HTTP_MAX_RETRIES cfg = Some m"
    using assms by (auto simp add: config_parses_def)
  obtain t where t: "(case timeout of Some t \<Rightarrow> Inr t
                      | None \<Rightarrow> getenv_float (MVP_HTTP_TIMEOUT cfg)) = Inr t"
    using assms by (cases timeout) (auto simp add: config_parses_def getenv_float_def)
  have c: "(case ttl of Some h \<Rightarrow> Inr h | None \<Rightarrow> getenv_int (HTTP_CACHE_TTL_HOURS cfg))
             = Inr (cache_hours_of cfg ttl)"
    using assms by (cases ttl) (auto simp add: config_parses_def getenv_int_def cache_hours_of_def)
  have s: "(case source_key of None \<Rightarrow> u | Some k \<Rightarrow> if k = [] then u else k)
             = source_of u source_key"
    by (simp add: source_of_def)
  have r: "max 1 m = retries_of cfg" by (simp add: retries_of_def m)
  show ?thesis
    unfolding fetch_url_def t c s
    by (simp add: m getenv_int_def Let_def r case_prod_beta
          split: sum.splits prod.splits option.splits)
qed

lemma retries_of_pos: "int 0 < retries_of cfg"
  by (simp add: retries_of_def)

lemma backoff_overflows_iff:
  "backoff_overflows lib cfg env \<longleftrightarrow>
     1026 \<le> retries_of cfg \<and> (\<forall>k<1025. transient_failure lib env (PROXY_POOL_URLS cfg) k)"
  by (auto simp add: backoff_overflows_def retries_of_def list_all_iff)

text \<open>The two ways in which a call ends.\<close>

lemma fetch_url_cases:
  assumes "config_parses cfg ttl timeout"
  shows "if backoff_overflows lib cfg env
     then fetch_url lib cfg env d u source_key ttl timeout = Inl overflow_error
     else \<exists>n R. int n < retries_of cfg \<and> n \<le> 1024 \<and>
       (\<forall>k<n. transient_failure lib env (PROXY_POOL_URLS cfg) k) \<and>
       (int n = retries_of cfg - 1 \<or> \<not> transient_failure lib env (PROXY_POOL_URLS cfg) n) \<and>
       effects (snd R) = attempts_trace env (PROXY_POOL_URLS cfg) 0 n \<and>
       last_status (snd R) = observed_status env (PROXY_POOL_URLS cfg) n \<and>
       final_outcome lib env (PROXY_POOL_URLS cfg) u (source_of u source_key) n
          \<lparr>last_error = None, last_status = 0, db = d, effects = []\<rparr> R \<and>
       fetch_url lib cfg env d u source_key ttl timeout =
         (case fst R of
            Some result \<Rightarrow> Inr (result, db (snd R), effects (snd R))
          | None \<Rightarrow>
             Inr (fst (serve_fallback env u (source_of u source_key) (cache_hours_of cfg ttl) (snd R)),
                  snd (serve_fallback env u (source_of u source_key) (cache_hours_of cfg ttl) (snd R)),
                  effects (snd R)))"
proof -
  let ?px = "PROXY_POOL_URLS cfg"
  let ?st0 = "\<lparr>last_error = None, last_status = 0, db = d, effects = []\<rparr>"
  let ?F = "fetch_attempts lib env ?px (retries_of cfg) u (source_of u source_key) 0 ?st0"
  have "\<exists>n. attempts_end lib env ?px (retries_of cfg) u (source_of u source_key) 0 ?st0 n"
    by (rule fetch_attempts_shape[OF retries_of_pos])
  then obtain n where
    e: "attempts_end lib env ?px (retries_of cfg) u (source_of u source_key) 0 ?st0 n"
    by blast
  then have n: "int n < retries_of cfg"
      and before: "\<forall>k<n. transient_failure lib env ?px k \<and> k < 1024"
    by (simp_all add: attempts_end_def)
  have n1024: "n \<le> 1024"
  proof (rule ccontr)
    assume "\<not> n \<le> 1024"
    then have "1024 < n" by simp
    with before show False by blast
  qed
  show ?thesis
  proof (cases "transient_failure lib env ?px n \<and> int n < retries_of cfg - 1")
    case True
    with e have big: "1024 \<le> n" and raised: "?F = Inl overflow_error"
      by (simp_all add: attempts_end_def)
    have n_eq: "n = 1024" using big n1024 by simp
    have "transient_failure lib env ?px k" if "k < 1025" for k
    proof (cases "k < n")
      case True
      then show ?thesis using before by blast
    next
      case False
      then have "k = n" using that n_eq by simp
      then show ?thesis using True by simp
    qed
    moreover have "1026 \<le> retries_of cfg" using True n_eq by simp
    ultimately have "backoff_overflows lib cfg env"
      unfolding backoff_overflows_iff by blast
    moreover have "fetch_url lib cfg env d u source_key ttl timeout = Inl overflow_error"
      by (simp add: fetch_url_unfold[OF assms] raised)
    ultimately show ?thesis by simp
  next
    case False
    with e obtain R where R: "?F = Inr R"
        "effects (snd R) = effects ?st0 @ attempts_trace env ?px 0 n"
        "last_status (snd R) = status_after env ?px [0..<Suc n] (last_status ?st0)"
        "final_outcome lib env ?px u (source_of u source_key) n ?st0 R"
      by (auto simp add: attempts_end_def)
    have no: "\<not> backoff_overflows lib cfg env"
    proof
      assume o: "backoff_overflows lib cfg env"
      then have "transient_failure lib env ?px n" "int n < retries_of cfg - 1"
        using n1024 unfolding backoff_overflows_iff by auto
      with False show False by simp
    qed
    have last: "int n = retries_of cfg - 1 \<or> \<not> transient_failure lib env ?px n"
      using False n by auto
    have url: "fetch_url lib cfg env d u source_key ttl timeout =
         (case fst R of
            Some result \<Rightarrow> Inr (result, db (snd R), effects (snd R))
          | None \<Rightarrow>
             Inr (fst (serve_fallback env u (source_of u source_key) (cache_hours_of cfg ttl) (snd R)),
                  snd (serve_fallback env u (source_of u source_key) (cache_hours_of cfg ttl) (snd R)),
                  effects (snd R)))"
      by (simp add: fetch_url_unfold[OF assms] R(1))
    have "\<exists>n R. int n < retries_of cfg \<and> n \<le> 1024 \<and>
       (\<forall>k<n. transient_failure lib env ?px k) \<and>
       (int n = retries_of cfg - 1 \<or> \<not> transient_failure lib env ?px n) \<and>
       effects (snd R) = attempts_trace env ?px 0 n \<and>
       last_status (snd R) = observed_status env ?px n \<and>
       final_outcome lib env ?px u (source_of u source_key) n ?st0 R \<and>
       fetch_url lib cfg env d u source_key ttl timeout =
         (case fst R of
            Some result \<Rightarrow> Inr (result, db (snd R), effects (snd R))
          | None \<Rightarrow>
             Inr (fst (serve_fallback env u (source_of u source_key) (cache_hours_of cfg ttl) (snd R)),
                  snd (serve_fallback env u (source_of u source_key) (cache_hours_of cfg ttl) (snd R)),
                  effects (snd R)))"
      using n n1024 before last R(2,3,4) url
      by (intro exI[of _ n] exI[of _ R]) (simp add: observed_status_def)
    with no show ?thesis by simp
  qed
qed

lemma fetch_url_returning:
  assumes "config_parses cfg ttl timeout" and "\<not> backoff_overflows lib cfg env"
  shows "\<exists>n R. int n < retries_of cfg \<and> n \<le> 1024 \<and>
       (\<forall>k<n. transient_failure lib env (PROXY_POOL_URLS cfg) k) \<and>
       (int n = retries_of cfg - 1 \<or> \<not> transient_failure lib env (PROXY_POOL_URLS cfg) n) \<and>
       effects (snd R) = attempts_trace env (PROXY_POOL_URLS cfg) 0 n \<and>
       last_status (snd R) = observed_status env (PROXY_POOL_URLS cfg) n \<and>
       final_outcome lib env (PROXY_POOL_URLS cfg) u (source_of u source_key) n
          \<lparr>last_error = None, last_status = 0, db = d, effects = []\<rparr> R \<and>
       fetch_url lib cfg env d u source_key ttl timeout =
         (case fst R of
            Some result \<Rightarrow> Inr (result, db (snd R), effects (snd R))
          | None \<Rightarrow>
             Inr (fst (serve_fallback env u (source_of u source_key) (cache_hours_of cfg ttl) (snd R)),
                  snd (serve_fallback env u (source_of u source_key) (cache_hours_of cfg ttl) (snd R)),
                  effects (snd R)))"
  using fetch_url_cases[OF assms(1), of lib env d u source_key] assms(2) by simp

lemma fetch_url_raising:
  assumes "config_parses cfg ttl timeout" and "backoff_overflows lib cfg env"
  shows "fetch_url lib cfg env d u source_key ttl timeout = Inl overflow_error"
  using fetch_url_cases[OF assms(1), of lib env d u source_key] assms(2) by simp

lemma fetch_url_returns_iff:
  assumes "config_parses cfg ttl timeout"
  shows "(\<exists>r d' tr. fetch_url lib cfg env d u source_key ttl timeout = Inr (r, d', tr))
           \<longleftrightarrow> \<not> backoff_overflows lib cfg env"
proof (cases "backoff_overflows lib cfg env")
  case True
  then show ?thesis using fetch_url_raising[OF assms True, where d = d and u = u and source_key = source_key] by simp
next
  case False
  from fetch_url_returning[OF assms False, where d = d and u = u and source_key = source_key]
  obtain n R where "fetch_url lib cfg env d u source_key ttl timeout =
         (case fst R of
            Some result \<Rightarrow> Inr (result, db (snd R), effects (snd R))
          | None \<Rightarrow>
             Inr (fst (serve_fallback env u (source_of u source_key) (cache_hours_of cfg ttl) (snd R)),
                  snd (serve_fallback env u (source_of u source_key) (cache_hours_of cfg ttl) (snd R)),
                  effects (snd R)))"
    by blast
  then show ?thesis using False by (cases "fst R") simp_all
qed


lemma attempts_trace_last:
  "last (attempts_trace env proxies a n) = Get n (choose_proxy proxies n)"
  by (simp add: attempts_trace_def)

lemma example_outage_transient:
  "transient_failure example_lib outage_env proxies k"
  by (simp add: transient_failure_def outage_env_def retryable_def)

lemma example_outage_overflows: "backoff_overflows example_lib overflow_config outage_env"
  unfolding backoff_overflows_iff
  by (simp add: example_outage_transient retries_of_def overflow_config_def)

lemma overflow_config_parses: "config_parses overflow_config None None"
  by (simp add: config_parses_def overflow_config_def)

subsection \<open>Retry and backoff\<close>

text \<open>
  A call that does not reach the overflow of the backoff returns an outcome, whatever
  the network answers and whatever the store does. Its effects are the attempts
  \<open>0, \<dots>, n\<close> for some \<open>n\<close> below the retry count; each attempt \<open>k\<close> before the last
  was answered with status 429 or 5xx, or raised an exception without a hard-fail
  marker, and was followed by a sleep of \<open>min(6.0, 0.5 * 2 ** k)\<close> plus the jitter drawn
  at \<open>k\<close>, and then by attempt \<open>k + 1\<close>. The last attempt either exhausts the retries
  or is no such transient failure. An exception with a hard-fail marker (name
  resolution, no route to host) ends the attempts at once.
\<close>

lemma fetch_url_backoff_trace:
  assumes "config_parses cfg ttl timeout" and "\<not> backoff_overflows lib cfg env"
  shows "\<exists>result d' n.
     fetch_url lib cfg env d u source_key ttl timeout =
       Inr (result, d',
            concat (map (\<lambda>k. [Get k (choose_proxy (PROXY_POOL_URLS cfg) k),
                               Sleep (min 6 (1 / 2 * 2 ^ k) + jitter env k)]) [0..<n])
              @ [Get n (choose_proxy (PROXY_POOL_URLS cfg) n)])
     \<and> int n < max 1 (the (HTTP_MAX_RETRIES cfg))
     \<and> (\<forall>k<n. transient_failure lib env (PROXY_POOL_URLS cfg) k)
     \<and> (int n = max 1 (the (HTTP_MAX_RETRIES cfg)) - 1
          \<or> \<not> transient_failure lib env (PROXY_POOL_URLS cfg) n)
     \<and> (\<forall>k\<le>n. \<forall>exc. session_get env k (choose_proxy (PROXY_POOL_URLS cfg) k) = Inl exc
            \<and> (\<exists>marker \<in> set hard_fail_markers. py_in marker (lower lib exc)) \<longrightarrow> k = n)"
proof -
  let ?px = "PROXY_POOL_URLS cfg"
  from fetch_url_returning[OF assms, where d = d and u = u and source_key = source_key]
  obtain n R where n: "int n < retries_of cfg"
      "\<forall>k<n. transient_failure lib env ?px k"
      "int n = retries_of cfg - 1 \<or> \<not> transient_failure lib env ?px n"
      "effects (snd R) = attempts_trace env ?px 0 n"
      "fetch_url lib cfg env d u source_key ttl timeout =
         (case fst R of
            Some result \<Rightarrow> Inr (result, db (snd R), effects (snd R))
          | None \<Rightarrow>
             Inr (fst (serve_fallback env u (source_of u source_key) (cache_hours_of cfg ttl) (snd R)),
                  snd (serve_fallback env u (source_of u source_key) (cache_hours_of cfg ttl) (snd R)),
                  effects (snd R)))"
    by blast
  have fatal: "k = n"
    if "k \<le> n" "session_get env k (choose_proxy ?px k) = Inl exc"
       "\<exists>marker \<in> set hard_fail_markers. py_in marker (lower lib exc)" for k exc
  proof (rule ccontr)
    assume "k \<noteq> n"
    then have "k < n" using that(1) by simp
    then have "transient_failure lib env ?px k" using n(2) by blast
    then show False using that(2,3) by (simp add: transient_failure_def retryable_exception_def)
  qed
  obtain result d' where r: "fetch_url lib cfg env d u source_key ttl timeout =
       Inr (result, d', attempts_trace env ?px 0 n)"
    using n(5) n(4) by (cases "fst R") auto
  show ?thesis
    using r n(1,2,3) fatal unfolding attempts_trace_def retries_of_def
    by (intro exI[of _ result] exI[of _ d'] exI[of _ n]) blast
qed

text \<open>
  Claim C4 says that \<^verbatim>\<open>fetch_url\<close> returns an outcome for every input and never raises
  for an ordinary network failure, and that a retryable failure is followed by a backoff
  of \<open>min(6.0, 0.5 * 2 ** attempt)\<close> plus jitter before the next attempt. The code does
  not do so on this input: with \<^verbatim>\<open>HTTP_MAX_RETRIES=1026\<close> and status 503 answered on
  every attempt, the attempts \<open>0, \<dots>, 1024\<close> fail, and the backoff after attempt 1024
  raises \<^verbatim>\<open>OverflowError\<close>, which leaves \<^verbatim>\<open>fetch_url\<close>.
\<close>

theorem fetch_url_backoff_overflow:
  "fetch_url example_lib overflow_config outage_env empty_store example_url None None None
     = Inl overflow_error"
  by (rule fetch_url_raising[OF overflow_config_parses example_outage_overflows])


lemma db_raises_update [simp]:
  "session_get (env\<lparr>db_raises := r\<rparr>) = session_get env"
  "jitter (env\<lparr>db_raises := r\<rparr>) = jitter env"
  by simp_all

lemma transient_failure_db_raises [simp]:
  "transient_failure lib (env\<lparr>db_raises := r\<rparr>) px k = transient_failure lib env px k"
  by (simp add: transient_failure_def)

lemma backoff_overflows_db_raises [simp]:
  "backoff_overflows lib cfg (env\<lparr>db_raises := r\<rparr>) = backoff_overflows lib cfg env"
  by (simp add: backoff_overflows_iff)

lemma example_no_overflow: "\<not> backoff_overflows lib example_config env"
  by (simp add: backoff_overflows_def example_config_def)

subsection \<open>Failures of the store\<close>



lemma record_source_health_cache [simp]:
  "source_cache (record_source_health now k b d) = source_cache d"
  by (simp add: record_source_health_def)

lemma persist_success_cache:
  "\<not> db_raises env UpsertCache \<Longrightarrow>
   source_cache (persist_success env u body source d) u =
     Some \<lparr>c_status_code = 200, c_body = body, c_fetched_at = db_now env UpsertCache,
            c_source = source\<rparr>"
  by (simp add: persist_success_def db_upsert_source_cache_def db_record_source_health_def
        upsert_source_cache_def)

lemma serve_fallback_cases:
  "fst (serve_fallback env u source ch st) =
     (case (if db_raises env GetCache then None
            else get_source_cache (db_now env GetCache) u ch (db st)) of
        Some row \<Rightarrow>
          if c_body row \<noteq> [] then
            \<lparr>res_ok = True,
              res_status_code = (if c_status_code row = 0 then 200 else c_status_code row),
              res_text = c_body row, res_url = u, res_from_cache = True,
              res_error = last_error st\<rparr>
          else \<lparr>res_ok = False, res_status_code = last_status st, res_text = [], res_url = u,
                 res_from_cache = False, res_error = last_error st\<rparr>
      | None \<Rightarrow> \<lparr>res_ok = False, res_status_code = last_status st, res_text = [], res_url = u,
                   res_from_cache = False, res_error = last_error st\<rparr>)"
  by (simp add: serve_fallback_def db_get_source_cache_def db_record_source_health_def
        get_source_cache_def Let_def split: option.splits)

lemma serve_fallback_not_live:
  "res_ok (fst (serve_fallback env u source ch st))
     \<Longrightarrow> res_from_cache (fst (serve_fallback env u source ch st))"
  by (auto simp add: serve_fallback_cases split: option.splits if_splits)

lemma returns_no_overflow:
  assumes "config_parses cfg ttl timeout"
    and "fetch_url lib cfg env d u source_key ttl timeout = Inr (r, d', tr)"
  shows "\<not> backoff_overflows lib cfg env"
  using fetch_url_returns_iff[OF assms(1), of lib env d u source_key] assms(2) by blast

lemma live_success_stores:
  assumes "config_parses cfg ttl timeout"
    and "fetch_url lib cfg env d u source_key ttl timeout = Inr (r, d', tr)"
    and "res_ok r" and "\<not> res_from_cache r" and "\<not> db_raises env UpsertCache"
  shows "source_cache d' u =
     Some \<lparr>c_status_code = 200, c_body = res_text r, c_fetched_at = db_now env UpsertCache,
            c_source = source_of u source_key\<rparr>"
proof -
  let ?px = "PROXY_POOL_URLS cfg"
  let ?src = "source_of u source_key"
  let ?st0 = "\<lparr>last_error = None, last_status = 0, db = d, effects = []\<rparr>"
  from fetch_url_returning[OF assms(1) returns_no_overflow[OF assms(1,2)],
      where d = d and u = u and source_key = source_key]
  obtain n R where n:
      "final_outcome lib env ?px u ?src n ?st0 R"
      "fetch_url lib cfg env d u source_key ttl timeout =
         (case fst R of
            Some result \<Rightarrow> Inr (result, db (snd R), effects (snd R))
          | None \<Rightarrow>
             Inr (fst (serve_fallback env u ?src (cache_hours_of cfg ttl) (snd R)),
                  snd (serve_fallback env u ?src (cache_hours_of cfg ttl) (snd R)),
                  effects (snd R)))"
    by blast
  have some: "fst R \<noteq> None"
  proof
    assume "fst R = None"
    then have "r = fst (serve_fallback env u ?src (cache_hours_of cfg ttl) (snd R))"
      using n(2) assms(2) by simp
    then show False using assms(3,4) serve_fallback_not_live by blast
  qed
  then have r: "fst R = Some r" "d' = db (snd R)" using n(2) assms(2) by auto
  show ?thesis
    using n(1) r some assms(5)
    by (auto simp add: final_outcome_def persist_success_cache
          split: sum.splits prod.splits if_splits)
qed

lemma exhausted_result:
  assumes "config_parses cfg ttl timeout"
    and "fetch_url lib cfg env d u source_key ttl timeout = Inr (r, d', tr)"
    and "\<forall>k p body. session_get env k p \<noteq> Inr (200, body)"
  shows "\<exists>n st. r = fst (serve_fallback env u (source_of u source_key) (cache_hours_of cfg ttl) st)
         \<and> tr = effects st
         \<and> db st = d
         \<and> last tr = Get n (choose_proxy (PROXY_POOL_URLS cfg) n)
         \<and> last_error st
             = Some (last_reply_error (session_get env n (choose_proxy (PROXY_POOL_URLS cfg) n)))
         \<and> last_status st = observed_status env (PROXY_POOL_URLS cfg) n"
proof -
  let ?px = "PROXY_POOL_URLS cfg"
  let ?src = "source_of u source_key"
  let ?st0 = "\<lparr>last_error = None, last_status = 0, db = d, effects = []\<rparr>"
  from fetch_url_returning[OF assms(1) returns_no_overflow[OF assms(1,2)],
      where d = d and u = u and source_key = source_key]
  obtain n R where n:
      "effects (snd R) = attempts_trace env ?px 0 n"
      "last_status (snd R) = observed_status env ?px n"
      "final_outcome lib env ?px u ?src n ?st0 R"
      "fetch_url lib cfg env d u source_key ttl timeout =
         (case fst R of
            Some result \<Rightarrow> Inr (result, db (snd R), effects (snd R))
          | None \<Rightarrow>
             Inr (fst (serve_fallback env u ?src (cache_hours_of cfg ttl) (snd R)),
                  snd (serve_fallback env u ?src (cache_hours_of cfg ttl) (snd R)),
                  effects (snd R)))"
    by blast
  have fin: "fst R = None" "db (snd R) = d"
     "last_error (snd R) = Some (last_reply_error (session_get env n (choose_proxy ?px n)))"
    using n(3) assms(3)
    by (auto simp add: final_outcome_def last_reply_error_def split: sum.splits prod.splits if_splits)
  have "r = fst (serve_fallback env u ?src (cache_hours_of cfg ttl) (snd R))"
      "tr = effects (snd R)"
    using n(4) fin(1) assms(2) by simp_all
  then show ?thesis
    using fin n(1,2)
    by (intro exI[of _ n] exI[of _ "snd R"]) (simp add: attempts_trace_last)
qed

subsection \<open>The cache round trip\<close>

text \<open>
  Claim C5, amended. A first call of \<^verbatim>\<open>fetch_url\<close> for \<open>u\<close> succeeds live (status
  200) and its upsert does not raise. A later call for \<open>u\<close> returns and gets no 200 on
  any attempt; \<open>n\<close> is its last attempt.
  \<^item> If the cache entry of \<open>u\<close> is still the one the first call wrote, its body is not
    empty, the cache read does not raise and the entry is not older than the requested
    TTL, the later call returns the success with \<^verbatim>\<open>from_cache=True\<close>, status 200, the
    cached body, and the error of its last attempt (\<^verbatim>\<open>HTTP <status>\<close> or the message
    of the exception).
  \<^item> If the cache read raises, or the store has no entry for \<open>u\<close> younger than the TTL,
    or the body of that entry is empty, the later call returns the failure outcome:
    empty body, the error of its last attempt, and the last status observed during the
    call (\<open>0\<close> when no attempt was answered with a response).
  \<^item> In particular, when the first call cached an empty body the later call returns
    the failure outcome.
  The amendment is the condition that the cached body is not empty: the source serves
  the fallback only \<^verbatim>\<open>if cached and cached.get("body")\<close>.
\<close>

theorem fetch_cache_round_trip:
  assumes first_cfg: "config_parses cfg1 ttl1 timeout1"
    and first_call: "fetch_url lib cfg1 env1 d0 u source_key1 ttl1 timeout1 = Inr (r1, d1, tr1)"
    and live_success: "res_ok r1" "\<not> res_from_cache r1"
    and persisted: "\<not> db_raises env1 UpsertCache"
    and later_cfg: "config_parses cfg2 ttl2 timeout2"
    and later_call: "fetch_url lib cfg2 env2 d2 u source_key2 ttl2 timeout2 = Inr (r2, d2', tr2)"
    and exhausted: "\<forall>k p body. session_get env2 k p \<noteq> Inr (200, body)"
  shows "\<exists>n. last tr2 = Get n (choose_proxy (PROXY_POOL_URLS cfg2) n)
     \<and> (source_cache d2 u = source_cache d1 u
            \<and> res_text r1 \<noteq> []
            \<and> \<not> db_raises env2 GetCache
            \<and> db_now env2 GetCache - cache_hours_of cfg2 ttl2 * 3600 \<le> db_now env1 UpsertCache
          \<longrightarrow> r2 = \<lparr>res_ok = True, res_status_code = 200, res_text = res_text r1, res_url = u,
                     res_from_cache = True,
                     res_error = Some (last_reply_error
                       (session_get env2 n (choose_proxy (PROXY_POOL_URLS cfg2) n)))\<rparr>)
     \<and> (db_raises env2 GetCache
            \<or> get_source_cache (db_now env2 GetCache) u (cache_hours_of cfg2 ttl2) d2 = None
            \<or> (\<exists>row. get_source_cache (db_now env2 GetCache) u (cache_hours_of cfg2 ttl2) d2
                        = Some row \<and> c_body row = [])
          \<longrightarrow> r2 = \<lparr>res_ok = False,
                     res_status_code = observed_status env2 (PROXY_POOL_URLS cfg2) n,
                     res_text = [], res_url = u, res_from_cache = False,
                     res_error = Some (last_reply_error
                       (session_get env2 n (choose_proxy (PROXY_POOL_URLS cfg2) n)))\<rparr>)
     \<and> (source_cache d2 u = source_cache d1 u \<and> res_text r1 = []
          \<longrightarrow> r2 = \<lparr>res_ok = False,
                     res_status_code = observed_status env2 (PROXY_POOL_URLS cfg2) n,
                     res_text = [], res_url = u, res_from_cache = False,
                     res_error = Some (last_reply_error
                       (session_get env2 n (choose_proxy (PROXY_POOL_URLS cfg2) n)))\<rparr>)"
proof -
  let ?ch = "cache_hours_of cfg2 ttl2"
  let ?src2 = "source_of u source_key2"
  let ?px = "PROXY_POOL_URLS cfg2"
  from exhausted_result[OF later_cfg later_call exhausted]
  obtain n st where st:
      "r2 = fst (serve_fallback env2 u ?src2 ?ch st)"
      "tr2 = effects st"
      "db st = d2"
      "last tr2 = Get n (choose_proxy ?px n)"
      "last_error st = Some (last_reply_error (session_get env2 n (choose_proxy ?px n)))"
      "last_status st = observed_status env2 ?px n"
    by blast
  let ?fail = "\<lparr>res_ok = False, res_status_code = observed_status env2 ?px n,
                 res_text = [], res_url = u, res_from_cache = False,
                 res_error = Some (last_reply_error (session_get env2 n (choose_proxy ?px n)))\<rparr>"
  have written: "source_cache d1 u =
       Some \<lparr>c_status_code = 200, c_body = res_text r1, c_fetched_at = db_now env1 UpsertCache,
              c_source = source_of u source_key1\<rparr>"
    by (rule live_success_stores[OF first_cfg first_call live_success persisted])
  have hit: "r2 = \<lparr>res_ok = True, res_status_code = 200, res_text = res_text r1, res_url = u,
                     res_from_cache = True,
                     res_error = Some (last_reply_error
                       (session_get env2 n (choose_proxy ?px n)))\<rparr>"
    if same: "source_cache d2 u = source_cache d1 u" and body: "res_text r1 \<noteq> []"
      and up: "\<not> db_raises env2 GetCache"
      and fresh: "db_now env2 GetCache - ?ch * 3600 \<le> db_now env1 UpsertCache"
  proof -
    have "get_source_cache (db_now env2 GetCache) u ?ch (db st) =
       Some \<lparr>c_status_code = 200, c_body = res_text r1, c_fetched_at = db_now env1 UpsertCache,
              c_source = source_of u source_key1\<rparr>"
      using written same fresh st(3) by (simp add: get_source_cache_def)
    then show ?thesis
      using body up st(5) unfolding st(1) by (simp add: serve_fallback_cases)
  qed
  have miss: "r2 = ?fail"
    if "db_raises env2 GetCache
          \<or> get_source_cache (db_now env2 GetCache) u ?ch d2 = None
          \<or> (\<exists>row. get_source_cache (db_now env2 GetCache) u ?ch d2 = Some row \<and> c_body row = [])"
    using that st(3,5,6) unfolding st(1) by (auto simp add: serve_fallback_cases)
  have empty: "r2 = ?fail"
    if same: "source_cache d2 u = source_cache d1 u" and body: "res_text r1 = []"
  proof -
    have "get_source_cache (db_now env2 GetCache) u ?ch d2 = None
          \<or> (\<exists>row. get_source_cache (db_now env2 GetCache) u ?ch d2 = Some row \<and> c_body row = [])"
      using written same body by (simp add: get_source_cache_def)
    then show ?thesis using miss by blast
  qed
  show ?thesis
    using st(4) hit miss empty by (intro exI[of _ n]) blast
qed

text \<open>
  The claim as stated fails for a page with an empty body: the first call succeeds with
  status 200 and persists the entry, and one hour later, within the TTL of 24 hours, a
  call that is answered 503 on all three attempts returns the failure outcome, not the
  cached one.
\<close>

theorem fetch_cache_round_trip_counterexample:
  "result_of (fetch_url example_lib example_config empty_page_env empty_store example_url
      None None None)
     = Some \<lparr>res_ok = True, res_status_code = 200, res_text = [], res_url = example_url,
              res_from_cache = False, res_error = None\<rparr>
   \<and> source_cache (store_of empty_store (fetch_url example_lib example_config empty_page_env
        empty_store example_url None None None)) example_url
     = Some \<lparr>c_status_code = 200, c_body = [], c_fetched_at = 1000, c_source = example_url\<rparr>
   \<and> 4600 - 24 * 3600 \<le> (1000 :: int)
   \<and> result_of (fetch_url example_lib example_config outage_env
        (store_of empty_store (fetch_url example_lib example_config empty_page_env
           empty_store example_url None None None))
        example_url None None None)
     = Some \<lparr>res_ok = False, res_status_code = 503, res_text = [], res_url = example_url,
              res_from_cache = False, res_error = Some (U ''HTTP 503'')\<rparr>"
  by code_simp

text \<open>
  An instance of the round trip: the page cached at time 1000 is served from the cache
  at time 4600 during an outage, with the error \<^verbatim>\<open>HTTP 503\<close> attached; from an empty
  store the same outage gives the failure outcome with the status 503.
\<close>

theorem fetch_cache_round_trip_witness:
  "config_parses example_config None None
   \<and> result_of (fetch_url example_lib example_config cached_page_env empty_store example_url
        None None None)
       = Some \<lparr>res_ok = True, res_status_code = 200, res_text = U ''<html>Acme</html>'',
                res_url = example_url, res_from_cache = False, res_error = None\<rparr>
   \<and> \<not> db_raises cached_page_env UpsertCache
   \<and> (\<forall>k p body. session_get outage_env k p \<noteq> Inr (200, body))
   \<and> \<not> db_raises outage_env GetCache
   \<and> db_now outage_env GetCache - cache_hours_of example_config None * 3600
        \<le> db_now cached_page_env UpsertCache
   \<and> result_of (fetch_url example_lib example_config outage_env
        (store_of empty_store (fetch_url example_lib example_config cached_page_env
           empty_store example_url None None None))
        example_url None None None)
       = Some \<lparr>res_ok = True, res_status_code = 200, res_text = U ''<html>Acme</html>'',
                res_url = example_url, res_from_cache = True,
                res_error = Some (U ''HTTP 503'')\<rparr>
   \<and> res_from_cache (the (result_of (fetch_url example_lib example_config outage_env
        (store_of empty_store (fetch_url example_lib example_config cached_page_env
           empty_store example_url None None None))
        example_url None None None)))
   \<and> get_source_cache (db_now outage_env GetCache) example_url
        (cache_hours_of example_config None) empty_store = None
   \<and> \<not> res_ok (the (result_of (fetch_url example_lib example_config outage_env empty_store
        example_url None None None)))
   \<and> result_of (fetch_url example_lib example_config outage_env empty_store
        example_url None None None)
       = Some \<lparr>res_ok = False, res_status_code = 503, res_text = [], res_url = example_url,
                res_from_cache = False, res_error = Some (U ''HTTP 503'')\<rparr>"
proof -
  let ?first = "fetch_url example_lib example_config cached_page_env empty_store example_url
        None None None"
  let ?d1 = "store_of empty_store ?first"
  let ?later = "fetch_url example_lib example_config outage_env ?d1 example_url None None None"
  let ?cold = "fetch_url example_lib example_config outage_env empty_store example_url
        None None None"
  have h: "config_parses example_config None None" by code_simp
  have r1: "result_of ?first
       = Some \<lparr>res_ok = True, res_status_code = 200, res_text = U ''<html>Acme</html>'',
                res_url = example_url, res_from_cache = False, res_error = None\<rparr>"
    by code_simp
  have r2: "result_of ?later
       = Some \<lparr>res_ok = True, res_status_code = 200, res_text = U ''<html>Acme</html>'',
                res_url = example_url, res_from_cache = True,
                res_error = Some (U ''HTTP 503'')\<rparr>"
    by code_simp
  have r3: "result_of ?cold
       = Some \<lparr>res_ok = False, res_status_code = 503, res_text = [], res_url = example_url,
                res_from_cache = False, res_error = Some (U ''HTTP 503'')\<rparr>"
    by code_simp
  have up: "\<not> db_raises cached_page_env UpsertCache" by code_simp
  have ex: "\<forall>k p body. session_get outage_env k p \<noteq> Inr (200, body)"
    by (simp add: outage_env_def)
  have rd: "\<not> db_raises outage_env GetCache" by code_simp
  have fresh: "db_now outage_env GetCache - cache_hours_of example_config None * 3600
        \<le> db_now cached_page_env UpsertCache" by code_simp
  have none: "get_source_cache (db_now outage_env GetCache) example_url
        (cache_hours_of example_config None) empty_store = None" by code_simp
  obtain a1 d1 t1 where first: "?first = Inr (a1, d1, t1)"
    using fetch_url_returns_iff[OF h, of example_lib cached_page_env] example_no_overflow
    by blast
  have a1: "a1 = \<lparr>res_ok = True, res_status_code = 200, res_text = U ''<html>Acme</html>'',
                res_url = example_url, res_from_cache = False, res_error = None\<rparr>"
    and d1: "?d1 = d1"
    using r1 first by (simp_all add: result_of_def store_of_def)
  have text1: "res_text a1 \<noteq> []" unfolding a1 by (simp add: U_def)
  obtain a2 d2 t2 where later: "fetch_url example_lib example_config outage_env d1 example_url
       None None None = Inr (a2, d2, t2)"
    using fetch_url_returns_iff[OF h, of example_lib outage_env] example_no_overflow
    by blast
  obtain a3 d3 t3 where cold: "?cold = Inr (a3, d3, t3)"
    using fetch_url_returns_iff[OF h, of example_lib outage_env] example_no_overflow
    by blast
  have warm: "res_from_cache a2"
    using fetch_cache_round_trip[OF h first _ _ up h later ex] a1 text1 rd fresh
    by auto
  have miss: "\<not> res_ok a3"
    using fetch_cache_round_trip[OF h first _ _ up h cold ex] a1 none
    by auto
  have w: "res_from_cache (the (result_of ?later))"
    using warm later d1 by (simp add: result_of_def)
  have m: "\<not> res_ok (the (result_of ?cold))"
    using miss cold by (simp add: result_of_def)
  show ?thesis
    using h r1 r2 r3 up ex rd fresh none w m by blast
qed

section \<open>Properties of the crawler\<close>

subsection \<open>The caps and the absence of duplicates, as invariants of the loop\<close>

declare crawl_loop.simps [simp del]

lemma registry_neq_web: "U ''registry'' \<noteq> U ''web''"
  by (simp add: U_def)

lemma make_row_fields [simp]:
  "row_is_official_site (make_row a item p is_internal is_registry) = is_internal"
  "is_registry_row (make_row a item p is_internal is_registry) = is_registry"
  "row_url (make_row a item p is_internal is_registry) = e_url item"
  "row_title (make_row a item p is_internal is_registry) = p_title p"
  "row_excerpt (make_row a item p is_internal is_registry) = p_excerpt p"
  using registry_neq_web by (auto simp add: make_row_def is_registry_row_def)

lemma accept_page_counters [simp]:
  "internal_pages (accept_page a item p is_internal is_registry st)
     = (if is_internal then internal_pages st + 1 else internal_pages st)"
  "external_pages (accept_page a item p is_internal is_registry st)
     = (if is_internal then external_pages st else external_pages st + 1)"
  "registry_pages (accept_page a item p is_internal is_registry st)
     = (if is_registry then registry_pages st + 1 else registry_pages st)"
  by (simp_all add: accept_page_def count_page_def)






lemma budget_inv_ticks [simp]: "budget_inv a (st\<lparr>ticks := t\<rparr>) = budget_inv a st"
  by (simp add: budget_inv_def)





lemma signature_make_row [simp]:
  "signature_of lib (make_row a item p is_internal is_registry)
     = content_signature lib (p_title p) (p_excerpt p)"
  by (simp add: signature_of_def)



lemma dedup_inv_ticks [simp]: "dedup_inv a (st\<lparr>ticks := t\<rparr>) = dedup_inv a st"
  by (simp add: dedup_inv_def)


lemma seed_extra_keeps [simp]:
  "evidence_rows (seed_extra a u st) = evidence_rows st"
  "visited (seed_extra a u st) = visited st"
  "seen_signatures (seed_extra a u st) = seen_signatures st"
  "internal_pages (seed_extra a u st) = internal_pages st"
  "external_pages (seed_extra a u st) = external_pages st"
  "registry_pages (seed_extra a u st) = registry_pages st"
  by (simp_all add: seed_extra_def Let_def)

lemma fold_seed_extra_keeps [simp]:
  "evidence_rows (fold (seed_extra a) us st) = evidence_rows st"
  "visited (fold (seed_extra a) us st) = visited st"
  "seen_signatures (fold (seed_extra a) us st) = seen_signatures st"
  "internal_pages (fold (seed_extra a) us st) = internal_pages st"
  "external_pages (fold (seed_extra a) us st) = external_pages st"
  "registry_pages (fold (seed_extra a) us st) = registry_pages st"
  by (induction us arbitrary: st; simp)+




lemma subseq_sorted_wrt: "subseq ys xs \<Longrightarrow> sorted_wrt P xs \<Longrightarrow> sorted_wrt P ys"
proof (induction rule: list_emb.induct)
  case (list_emb_Cons xs ys y)
  then show ?case by simp
next
  case (list_emb_Cons2 x y xs ys)
  then show ?case using list_emb_set[of "(=)" xs ys] by (auto simp: subseq_singleton_left)
qed simp




lemma subseq_mset: "subseq ys xs \<Longrightarrow> mset ys \<subseteq># mset xs"
  by (induction rule: list_emb.induct) (auto intro: subset_mset.order_trans)

lemma py_sort_desc_mset [simp]: "mset (py_sort_desc f xs) = mset xs"
  by (simp add: py_sort_desc_def)

lemma py_sort_desc_set [simp]: "set (py_sort_desc f xs) = set xs"
  by (simp add: py_sort_desc_def)

lemma py_sort_desc_length [simp]: "length (py_sort_desc f xs) = length xs"
  by (simp add: py_sort_desc_def)

lemma py_sort_desc_sorted: "sorted_wrt (\<lambda>x y. f y \<le> f x) (py_sort_desc f xs)"
proof -
  have "sorted (map f (sort_key f (rev xs)))" by (rule sorted_sort_key)
  then have "sorted_wrt (\<lambda>x y. f x \<le> f y) (sort_key f (rev xs))" by (simp add: sorted_map)
  then show ?thesis by (simp add: py_sort_desc_def sorted_wrt_rev)
qed

lemma py_sort_desc_filter_length [simp]:
  "length (filter P (py_sort_desc f xs)) = length (filter P xs)"
proof -
  have "mset (filter P (py_sort_desc f xs)) = mset (filter P xs)" by simp
  then show ?thesis by (metis size_mset)
qed

lemma py_sort_desc_distinct_map [simp]:
  "distinct (map g (py_sort_desc f xs)) = distinct (map g xs)"
proof -
  have "mset (map g (py_sort_desc f xs)) = mset (map g xs)" by simp
  then show ?thesis by (rule mset_eq_imp_distinct_iff)
qed

text \<open>The loop over the sorted rows.\<close>

lemma domain_cap_loop_subseq:
  "\<exists>ys. domain_cap_loop mp dc out xs = out @ ys \<and> subseq ys xs"
proof (induction xs arbitrary: dc out)
  case Nil
  then show ?case by simp
next
  case (Cons x xs)
  let ?cap = "case dc (cap_key x) of None \<Rightarrow> 0 | Some n \<Rightarrow> n"
  show ?case
  proof (cases "?cap \<ge> 4")
    case True
    from Cons.IH[of dc out] obtain ys where "domain_cap_loop mp dc out xs = out @ ys" "subseq ys xs"
      by blast
    with True show ?thesis by (auto simp add: Let_def)
  next
    case False
    show ?thesis
    proof (cases "int (length (out @ [x])) \<ge> mp")
      case True
      have "subseq [x] (x # xs)" by simp
      with True False show ?thesis by (auto simp add: Let_def)
    next
      case nfull: False
      from Cons.IH[of "dc(cap_key x \<mapsto> ?cap + 1)" "out @ [x]"] obtain ys where
        ys: "domain_cap_loop mp (dc(cap_key x \<mapsto> ?cap + 1)) (out @ [x]) xs = (out @ [x]) @ ys"
          "subseq ys xs" by blast
      have "subseq (x # ys) (x # xs)" using ys(2) by simp
      with ys(1) nfull False show ?thesis by (auto simp add: Let_def)
    qed
  qed
qed


lemma domain_cap_loop_cap:
  "cap_counts dc out \<Longrightarrow>
   length (filter (\<lambda>x. cap_key x = d) (domain_cap_loop mp dc out xs)) \<le> 4"
proof (induction xs arbitrary: dc out)
  case Nil
  then show ?case by (simp add: cap_counts_def)
next
  case (Cons x xs)
  let ?cap = "case dc (cap_key x) of None \<Rightarrow> 0 | Some n \<Rightarrow> n"
  show ?case
  proof (cases "?cap \<ge> 4")
    case True
    with Cons.IH[OF Cons.prems] show ?thesis by (simp add: Let_def)
  next
    case False
    have cnt: "cap_counts (dc(cap_key x \<mapsto> ?cap + 1)) (out @ [x])"
      using Cons.prems False unfolding cap_counts_def
      by (auto split: option.splits)
    show ?thesis
    proof (cases "int (length (out @ [x])) \<ge> mp")
      case True
      with False cnt show ?thesis by (simp add: Let_def cap_counts_def)
    next
      case nfull: False
      with False have eq: "domain_cap_loop mp dc out (x # xs)
          = domain_cap_loop mp (dc(cap_key x \<mapsto> ?cap + 1)) (out @ [x]) xs"
        by (simp add: Let_def)
      show ?thesis unfolding eq by (rule Cons.IH[OF cnt])
    qed
  qed
qed

lemma cap_counts_empty: "cap_counts Map.empty []"
  by (simp add: cap_counts_def)

lemma filter_length_mono:
  "(\<And>x. P x \<Longrightarrow> Q x) \<Longrightarrow> length (filter P xs) \<le> length (filter Q xs)"
  by (induction xs) auto

lemma cap_key_domain:
  "length (filter (\<lambda>x. row_domain (sr_row x) = d) xs)
     \<le> length (filter (\<lambda>x. cap_key x = (if d = [] then U ''unknown'' else d)) xs)"
  by (rule filter_length_mono) (simp add: cap_key_def)

lemma prioritize_subseq:
  "\<exists>ys. prioritize_company_evidence lib rows name mp = ys
        \<and> subseq ys (py_sort_desc sort_key_of (map (enrich lib name) rows))"
proof (cases "rows = []")
  case True
  then show ?thesis by (simp add: prioritize_company_evidence_def)
next
  case False
  from domain_cap_loop_subseq[of mp Map.empty "[]"
        "py_sort_desc sort_key_of (map (enrich lib name) rows)"]
  show ?thesis using False by (auto simp add: prioritize_company_evidence_def)
qed

lemma prioritize_sorted:
  "sorted_wrt (\<lambda>x y. sort_key_of y \<le> sort_key_of x) (prioritize_company_evidence lib rows name mp)"
  using prioritize_subseq[of lib rows name mp] py_sort_desc_sorted[of sort_key_of]
  by (auto intro: subseq_sorted_wrt)

lemma prioritize_cap:
  "length (filter (\<lambda>x. cap_key x = d) (prioritize_company_evidence lib rows name mp)) \<le> 4"
  using domain_cap_loop_cap[OF cap_counts_empty]
  by (simp add: prioritize_company_evidence_def)


lemma sr_row_enrich [simp]: "sr_row (enrich lib name r) = r"
  by (simp add: enrich_def)



lemma prioritize_mset:
  "mset (map sr_row (prioritize_company_evidence lib rows name mp)) \<subseteq># mset rows"
proof -
  from prioritize_subseq[of lib rows name mp]
  have s: "subseq (prioritize_company_evidence lib rows name mp)
             (py_sort_desc sort_key_of (map (enrich lib name) rows))" by simp
  from subseq_mset[OF subseq_map[OF s, of sr_row]]
  have "mset (map sr_row (prioritize_company_evidence lib rows name mp))
          \<subseteq># mset (map sr_row (py_sort_desc sort_key_of (map (enrich lib name) rows)))" .
  also have "\<dots> = mset (map sr_row (map (enrich lib name) rows))"
    by (metis mset_map py_sort_desc_mset)
  also have "\<dots> = mset rows" by (simp add: comp_def)
  finally show ?thesis .
qed

lemma collect_unfold:
  "collect_company_evidence lib w cfg primary_url extra_urls company_name =
     (prioritize_company_evidence lib
        (evidence_rows (crawl_loop (crawl_args_of lib w cfg primary_url company_name)
           (initial_state (crawl_args_of lib w cfg primary_url company_name) extra_urls)))
        company_name (max_pages cfg),
      crawl_loop (crawl_args_of lib w cfg primary_url company_name)
        (initial_state (crawl_args_of lib w cfg primary_url company_name) extra_urls))"
  by (simp add: collect_company_evidence_def crawl_args_of_def Let_def)

lemma crawl_args_of_fields [simp]:
  "a_lib (crawl_args_of lib w cfg primary_url company_name) = lib"
  "a_cfg (crawl_args_of lib w cfg primary_url company_name) = cfg"
  by (simp_all add: crawl_args_of_def)








lemma prioritize_members:
  "x \<in> set (prioritize_company_evidence lib rows name mp)
     \<Longrightarrow> sr_row x \<in> set rows \<and> x = enrich lib name (sr_row x)"
proof -
  assume x: "x \<in> set (prioritize_company_evidence lib rows name mp)"
  from prioritize_subseq[of lib rows name mp]
  have "subseq (prioritize_company_evidence lib rows name mp)
             (py_sort_desc sort_key_of (map (enrich lib name) rows))" by simp
  from subseq_mset[OF this] have "set (prioritize_company_evidence lib rows name mp)
       \<subseteq> set (py_sort_desc sort_key_of (map (enrich lib name) rows))"
    by (rule set_mset_mono[of "mset _" "mset _", simplified])
  with x have "x \<in> enrich lib name ` set rows" by auto
  then show ?thesis by auto
qed

lemma sort_key_desc_relevance:
  "sort_key_of y \<le> sort_key_of x \<Longrightarrow> relevance_score y \<le> relevance_score x"
  by (auto simp add: sort_key_of_def less_eq_prod_def)

lemma sort_key_desc_chars:
  "sort_key_of y \<le> sort_key_of x \<Longrightarrow> relevance_score x = relevance_score y
     \<Longrightarrow> row_content_chars (sr_row y) \<le> row_content_chars (sr_row x)"
  by (auto simp add: sort_key_of_def less_eq_prod_def)

text \<open>The example crawl, evaluated.\<close>

lemma example_summary_value:
  "example_summary =
     (([U ''https://acme.example/'', U ''https://acme.example/about'', U ''https://acme.example/p2'',
        U ''https://acme.example/p4'', U ''https://news.example/acme''],
       [U ''acme.example'', U ''acme.example'', U ''acme.example'', U ''acme.example'',
        U ''news.example''],
       [1671 / 250, 813 / 125, 1563 / 250, 1563 / 250, 209 / 50],
       [112, 109, 125, 100, 108]),
      ([U ''https://acme.example/'', U ''https://acme.example/about'', U ''https://acme.example/p1'',
        U ''https://acme.example/p2'', U ''https://acme.example/p3'', U ''https://acme.example/p4'',
        U ''https://news.example/acme''],
       [U ''acme.example'', U ''acme.example'', U ''acme.example'', U ''acme.example'',
        U ''acme.example'', U ''acme.example'', U ''news.example'']),
      [U ''https://acme.example/'', U ''https://acme.example/about'',
       U ''https://acme.example/index'', U ''https://acme.example/empty'',
       U ''https://acme.example/p1'', U ''https://acme.example/p2'', U ''https://acme.example/p3'',
       U ''https://acme.example/p4'', U ''https://news.example/acme''],
      [Ok, Ok, DuplicateTitle, ContentTooShort, Ok, EnqueuePublicSearch 1, Ok, Ok, Ok, Ok],
      6, 1, 0)"
  by code_simp

lemma example_crawl_pair:
  "collect_company_evidence example_lib example_world example_crawl_config
     (U ''https://acme.example/'') [] (U ''Acme'') = (fst example_crawl, snd example_crawl)"
  by (simp add: example_crawl_def)

lemma example_out:
  "map (row_url \<circ> sr_row) (fst example_crawl) =
     [U ''https://acme.example/'', U ''https://acme.example/about'', U ''https://acme.example/p2'',
      U ''https://acme.example/p4'', U ''https://news.example/acme'']"
  "map (row_domain \<circ> sr_row) (fst example_crawl) =
     [U ''acme.example'', U ''acme.example'', U ''acme.example'', U ''acme.example'',
      U ''news.example'']"
  "map relevance_score (fst example_crawl) = [1671 / 250, 813 / 125, 1563 / 250, 1563 / 250, 209 / 50]"
  "map (row_content_chars \<circ> sr_row) (fst example_crawl) = [112, 109, 125, 100, 108]"
  using example_summary_value by (simp_all add: example_summary_def case_prod_beta)

lemma example_rows:
  "map row_url (evidence_rows (snd example_crawl)) =
     [U ''https://acme.example/'', U ''https://acme.example/about'', U ''https://acme.example/p1'',
      U ''https://acme.example/p2'', U ''https://acme.example/p3'', U ''https://acme.example/p4'',
      U ''https://news.example/acme'']"
  "map row_domain (evidence_rows (snd example_crawl)) =
     [U ''acme.example'', U ''acme.example'', U ''acme.example'', U ''acme.example'',
      U ''acme.example'', U ''acme.example'', U ''news.example'']"
  using example_summary_value by (simp_all add: example_summary_def case_prod_beta)








text \<open>
  Claim C3. The list that \<^verbatim>\<open>_collect_company_evidence\<close> returns is sorted by relevance
  score, highest first; of two entries with the same score the one with more extracted
  text (\<^verbatim>\<open>content_chars\<close>) comes first; no domain has more than four entries; and every
  entry is an accepted row together with the score \<^verbatim>\<open>_company_relevance_score\<close> gives
  it.
\<close>

theorem collect_sorted_capped:
  assumes "collect_company_evidence lib w cfg primary_url extra_urls company_name = (out, st)"
  shows "sorted_wrt (\<lambda>x y. relevance_score y \<le> relevance_score x) out
       \<and> sorted_wrt (\<lambda>x y. relevance_score x = relevance_score y
                        \<longrightarrow> row_content_chars (sr_row y) \<le> row_content_chars (sr_row x)) out
       \<and> (\<forall>d. length (filter (\<lambda>x. row_domain (sr_row x) = d) out) \<le> 4)
       \<and> (\<forall>x \<in> set out. sr_row x \<in> set (evidence_rows st)
                        \<and> x = enrich lib company_name (sr_row x))"
proof -
  from assms have
    out: "out = prioritize_company_evidence lib (evidence_rows st) company_name (max_pages cfg)"
    by (auto simp add: collect_unfold)
  have s: "sorted_wrt (\<lambda>x y. sort_key_of y \<le> sort_key_of x) out"
    unfolding out by (rule prioritize_sorted)
  have 1: "sorted_wrt (\<lambda>x y. relevance_score y \<le> relevance_score x) out"
    by (rule sorted_wrt_mono_rel[OF _ s]) (rule sort_key_desc_relevance)
  have 2: "sorted_wrt (\<lambda>x y. relevance_score x = relevance_score y
                        \<longrightarrow> row_content_chars (sr_row y) \<le> row_content_chars (sr_row x)) out"
    by (rule sorted_wrt_mono_rel[OF _ s]) (simp add: sort_key_desc_chars)
  have 3: "length (filter (\<lambda>x. row_domain (sr_row x) = d) out) \<le> 4" for d
    using cap_key_domain[of d out]
      prioritize_cap[of "if d = [] then U ''unknown'' else d" lib "evidence_rows st" company_name
        "max_pages cfg"]
    unfolding out by linarith
  have 4: "\<forall>x \<in> set out. sr_row x \<in> set (evidence_rows st) \<and> x = enrich lib company_name (sr_row x)"
    unfolding out using prioritize_members by blast
  from 1 2 3 4 show ?thesis by blast
qed

text \<open>
  On the example: the four product pages have the same score and are ordered by their
  length; the domain of the site has six accepted rows, and the four best are returned.
\<close>

theorem collect_sorted_capped_witness:
  "sorted_wrt (\<lambda>x y. relevance_score y \<le> relevance_score x) (fst example_crawl)
   \<and> sorted_wrt (\<lambda>x y. relevance_score x = relevance_score y
                    \<longrightarrow> row_content_chars (sr_row y) \<le> row_content_chars (sr_row x))
        (fst example_crawl)
   \<and> length (filter (\<lambda>x. row_domain (sr_row x) = U ''acme.example'') (fst example_crawl)) \<le> 4
   \<and> map (row_url \<circ> sr_row) (fst example_crawl) =
       [U ''https://acme.example/'', U ''https://acme.example/about'', U ''https://acme.example/p2'',
        U ''https://acme.example/p4'', U ''https://news.example/acme'']
   \<and> map (row_domain \<circ> sr_row) (fst example_crawl) =
       [U ''acme.example'', U ''acme.example'', U ''acme.example'', U ''acme.example'',
        U ''news.example'']
   \<and> map relevance_score (fst example_crawl) = [1671 / 250, 813 / 125, 1563 / 250, 1563 / 250, 209 / 50]
   \<and> map (row_content_chars \<circ> sr_row) (fst example_crawl) = [112, 109, 125, 100, 108]
   \<and> map row_domain (evidence_rows (snd example_crawl)) =
       [U ''acme.example'', U ''acme.example'', U ''acme.example'', U ''acme.example'',
        U ''acme.example'', U ''acme.example'', U ''news.example'']"
  using collect_sorted_capped[OF example_crawl_pair] example_out example_rows(2)
  by simp

section \<open>Properties of the research orchestrator\<close>

lemma build_tasks_ids: "map task_id (build_tasks lib n u) = task_ids"
  by (simp add: build_tasks_def Let_def task_ids_def)

lemma build_tasks_length: "length (build_tasks lib n u) = 5"
  using arg_cong[OF build_tasks_ids[of lib n u], of length] by (simp add: task_ids_def)

lemma task_ids_sorted: "sorted task_ids"
  by code_simp

lemma task_ids_distinct: "distinct task_ids"
  by code_simp

lemma sub_report_of_task_id [simp]:
  "sr_task_id (sub_report_of w cn cu seeds task) = task_id task"
  by (simp add: sub_report_of_def run_sub_agent_def placeholder_def split: sum.splits)

lemma sub_report_of_failed:
  "sub_agent_work w task cn cu seeds = Inl exc \<Longrightarrow>
   sub_report_of w cn cu seeds task = placeholder task exc"
  by (simp add: sub_report_of_def run_sub_agent_def)

lemma max_workers_parses:
  "DD_DEEP_RESEARCH_MAX_WORKERS w \<noteq> None \<Longrightarrow> \<exists>mw. max_workers w = Inr mw \<and> 2 \<le> mw"
  by (auto simp add: max_workers_def getenv_int_def)

text \<open>Sorting what was collected in any order of completion gives the order of the tasks.\<close>

lemma sort_collected:
  assumes order: "mset order = mset [0..<length tasks]"
    and ids: "distinct (map task_id tasks)" "sorted (map task_id tasks)"
    and g: "\<And>t. sr_task_id (g t) = task_id t"
  shows "sort_key sr_task_id (map (\<lambda>i. g (tasks ! i)) order) = map g tasks"
proof (rule sort_key_inj_key_eq)
  have "mset (map (\<lambda>i. g (tasks ! i)) order) = image_mset (\<lambda>i. g (tasks ! i)) (mset order)"
    by simp
  also have "\<dots> = image_mset (\<lambda>i. g (tasks ! i)) (mset [0..<length tasks])"
    by (simp only: order)
  also have "\<dots> = mset (map g (map (\<lambda>i. tasks ! i) [0..<length tasks]))"
    by (simp add: comp_def)
  also have "\<dots> = mset (map g tasks)" by (simp only: map_nth)
  finally show "mset (map (\<lambda>i. g (tasks ! i)) order) = mset (map g tasks)" .
next
  have sub: "set (map (\<lambda>i. g (tasks ! i)) order) \<subseteq> g ` set tasks"
  proof -
    have "set order = set [0..<length tasks]" using order by (metis set_mset_mset)
    then show ?thesis by auto
  qed
  have "inj_on task_id (set tasks)" using ids(1) by (simp add: distinct_map)
  then have "inj_on sr_task_id (g ` set tasks)"
    by (auto simp add: inj_on_def g)
  then show "inj_on sr_task_id (set (map (\<lambda>i. g (tasks ! i)) order))"
    using sub by (rule inj_on_subset)
next
  have "sr_task_id \<circ> g = task_id" by (rule ext) (simp add: g)
  then show "sorted (map sr_task_id (map g tasks))" using ids(2) by simp
qed

lemma run_company_deep_research_result:
  assumes cfg: "DD_DEEP_RESEARCH_MAX_WORKERS w \<noteq> None"
    and order: "mset (completion_order w) = mset [0..<5]"
  shows "run_company_deep_research lib w company_name company_url vc_thesis preferred_sectors
           seed_evidence_urls =
     (let cn = research_name lib company_name company_url;
          cu = strip lib company_url;
          seeds = research_seeds lib seed_evidence_urls;
          sc = build_scope_brief lib cn cu vc_thesis preferred_sectors;
          subs = map (sub_report_of w cn cu seeds) (build_tasks lib cn cu);
          final = final_write w sc subs
      in Inr \<lparr>r_scope = sc, r_sub_reports = subs, r_final = final,
              r_trace = [ScopeDone 5 (brief_len w sc),
                         ResearchDone 5 (sum_list (map sr_evidence_count subs))
                           (sum_list (map (\<lambda>x. case sr_searched_urls x of
                                                   None \<Rightarrow> 0 | Some n \<Rightarrow> n) subs)),
                         WriteDone (length (f_citations final))],
              r_elapsed_sec = run_elapsed_sec w\<rparr>)"
proof -
  let ?cn = "research_name lib company_name company_url"
  let ?cu = "strip lib company_url"
  let ?seeds = "research_seeds lib seed_evidence_urls"
  let ?tasks = "build_tasks lib ?cn ?cu"
  obtain mw where mw: "max_workers w = Inr mw" "2 \<le> mw"
    using max_workers_parses[OF cfg] by blast
  have pool: "\<not> min mw (int (length ?tasks)) \<le> 0"
    using mw(2) by (simp add: build_tasks_length)
  have order': "mset (completion_order w) = mset [0..<length ?tasks]"
    using order by (simp add: build_tasks_length)
  have sorted: "sort_key sr_task_id
        (map (\<lambda>i. sub_report_of w ?cn ?cu ?seeds (?tasks ! i)) (completion_order w))
      = map (sub_report_of w ?cn ?cu ?seeds) ?tasks"
    by (rule sort_collected[OF order'])
       (simp_all add: build_tasks_ids task_ids_sorted task_ids_distinct)
  show ?thesis
    unfolding run_company_deep_research_def Let_def mw sorted
    using pool by (simp add: build_tasks_length)
qed

lemma run_company_deep_research_returns:
  assumes cfg: "DD_DEEP_RESEARCH_MAX_WORKERS w \<noteq> None"
    and order: "mset (completion_order w) = mset [0..<5]"
  shows "\<exists>r. run_company_deep_research lib w company_name company_url vc_thesis preferred_sectors
           seed_evidence_urls = Inr r
     \<and> r_scope r = build_scope_brief lib (research_name lib company_name company_url)
                       (strip lib company_url) vc_thesis preferred_sectors
     \<and> r_sub_reports r =
         map (sub_report_of w (research_name lib company_name company_url) (strip lib company_url)
                (research_seeds lib seed_evidence_urls))
             (build_tasks lib (research_name lib company_name company_url) (strip lib company_url))"
  unfolding run_company_deep_research_result[OF cfg order] Let_def by simp

text \<open>
  Claim C6. Provided the environment variable that sizes the pool parses and
  \<^verbatim>\<open>as_completed\<close> yields the future of each of the five tasks once, in any order, the
  run returns a result, whatever each sub-agent does. Its sub-reports are one per planned
  task, in the order of the task identifiers \<^verbatim>\<open>business\<close>, \<^verbatim>\<open>financial\<close>, \<^verbatim>\<open>legal\<close>,
  \<^verbatim>\<open>team\<close>, \<^verbatim>\<open>technology\<close>, which is sorted and does not depend on the order of
  completion. The sub-report of a task whose sub-agent raised is the placeholder of that
  task: it carries the identifier of the task, one gap that explains the failure, and
  the evidence count zero.
\<close>

theorem research_failure_isolation:
  assumes cfg: "DD_DEEP_RESEARCH_MAX_WORKERS w \<noteq> None"
    and order: "mset (completion_order w) = mset [0..<5]"
  shows "\<exists>r. run_company_deep_research lib w company_name company_url vc_thesis preferred_sectors
               seed_evidence_urls = Inr r
     \<and> r_sub_reports r =
         map (sub_report_of w (research_name lib company_name company_url) (strip lib company_url)
                (research_seeds lib seed_evidence_urls))
             (build_tasks lib (research_name lib company_name company_url) (strip lib company_url))
     \<and> map sr_task_id (r_sub_reports r) = task_ids
     \<and> sorted (map sr_task_id (r_sub_reports r))
     \<and> (\<forall>task \<in> set (build_tasks lib (research_name lib company_name company_url)
                         (strip lib company_url)).
          \<forall>exc. sub_agent_work w task (research_name lib company_name company_url)
                   (strip lib company_url) (research_seeds lib seed_evidence_urls) = Inl exc
            \<longrightarrow> placeholder task exc \<in> set (r_sub_reports r)
                \<and> sr_task_id (placeholder task exc) = task_id task
                \<and> length (sr_gaps (placeholder task exc)) = 1
                \<and> sr_evidence_count (placeholder task exc) = 0)"
proof -
  let ?cn = "research_name lib company_name company_url"
  let ?cu = "strip lib company_url"
  let ?seeds = "research_seeds lib seed_evidence_urls"
  let ?tasks = "build_tasks lib ?cn ?cu"
  let ?subs = "map (sub_report_of w ?cn ?cu ?seeds) ?tasks"
  from run_company_deep_research_returns[OF cfg order, of lib company_name company_url vc_thesis
      preferred_sectors seed_evidence_urls]
  obtain r where r: "run_company_deep_research lib w company_name company_url vc_thesis
      preferred_sectors seed_evidence_urls = Inr r" "r_sub_reports r = ?subs"
    by auto
  have ids: "map sr_task_id ?subs = task_ids"
    by (simp add: comp_def build_tasks_ids)
  have ph: "placeholder task exc \<in> set ?subs"
    if "task \<in> set ?tasks" "sub_agent_work w task ?cn ?cu ?seeds = Inl exc" for task exc
    using that sub_report_of_failed[OF that(2)] by force
  show ?thesis
    using r ids ph task_ids_sorted
    by (intro exI[of _ r]) (auto simp add: placeholder_def)
qed

text \<open>
  On the example: the task \<^verbatim>\<open>legal\<close> fails and completes last; the five sub-reports come
  in the order of their identifiers, the third with one gap and no evidence.
\<close>

theorem research_failure_isolation_witness:
  "DD_DEEP_RESEARCH_MAX_WORKERS example_research_world \<noteq> None
   \<and> mset (completion_order example_research_world) = mset [0..<5]
   \<and> completion_order example_research_world = [3, 1, 4, 0, 2]
   \<and> map_option (map sr_task_id \<circ> r_sub_reports)
        (research_result_of (run_company_deep_research example_lib example_research_world
           (U ''Acme'') (U ''https://acme.example/'') [] None None))
       = Some task_ids
   \<and> map_option (map sr_evidence_count \<circ> r_sub_reports)
        (research_result_of (run_company_deep_research example_lib example_research_world
           (U ''Acme'') (U ''https://acme.example/'') [] None None))
       = Some [2, 2, 0, 2, 2]
   \<and> map_option (map (length \<circ> sr_gaps) \<circ> r_sub_reports)
        (research_result_of (run_company_deep_research example_lib example_research_world
           (U ''Acme'') (U ''https://acme.example/'') [] None None))
       = Some [0, 0, 1, 0, 0]
   \<and> map_option r_trace
        (research_result_of (run_company_deep_research example_lib example_research_world
           (U ''Acme'') (U ''https://acme.example/'') [] None None))
       = Some [ScopeDone 5 0, ResearchDone 5 8 28, WriteDone 0]"
proof -
  let ?run = "run_company_deep_research example_lib example_research_world
           (U ''Acme'') (U ''https://acme.example/'') [] None None"
  have cfg: "DD_DEEP_RESEARCH_MAX_WORKERS example_research_world \<noteq> None"
    by (simp add: example_research_world_def)
  have ord: "completion_order example_research_world = [3, 1, 4, 0, 2]"
    by (simp add: example_research_world_def)
  have perm: "mset (completion_order example_research_world) = mset [0..<5]"
    unfolding ord by code_simp
  have ev: "map_option (map sr_evidence_count \<circ> r_sub_reports) (research_result_of ?run)
       = Some [2, 2, 0, 2, 2]" by code_simp
  have gp: "map_option (map (length \<circ> sr_gaps) \<circ> r_sub_reports) (research_result_of ?run)
       = Some [0, 0, 1, 0, 0]" by code_simp
  have tr: "map_option r_trace (research_result_of ?run)
       = Some [ScopeDone 5 0, ResearchDone 5 8 28, WriteDone 0]" by code_simp
  from research_failure_isolation[OF cfg perm, of example_lib "U ''Acme''"
      "U ''https://acme.example/''" "[]" None None]
  have ids: "map_option (map sr_task_id \<circ> r_sub_reports) (research_result_of ?run) = Some task_ids"
    by (auto simp add: research_result_of_def)
  show ?thesis using cfg ord perm ev gp tr ids by simp
qed

text \<open>
  Claim C9 says that a research call with an empty name and an empty or unresolvable URL
  surfaces as an error from \<^verbatim>\<open>run_company_deep_research\<close>. On the example it returns a
  result: the name stays empty and the five sub-reports are there.
\<close>

theorem research_without_identity_counterexample:
  "strip example_lib [] = []
   \<and> research_domain example_lib [] = []
   \<and> research_name example_lib [] [] = []
   \<and> map_option (map sr_task_id \<circ> r_sub_reports)
        (research_result_of (run_company_deep_research example_lib example_research_world
           [] [] [] None None))
       = Some [U ''business'', U ''financial'', U ''legal'', U ''team'', U ''technology'']
   \<and> map_option (sc_company_name \<circ> r_scope)
        (research_result_of (run_company_deep_research example_lib example_research_world
           [] [] [] None None))
       = Some []"
  by code_simp

text \<open>
  Claim C9, amended. \<^verbatim>\<open>run_company_deep_research\<close> does not check the identity of the
  subject: called with a name that is empty after stripping and a URL without a domain
  it returns a normal result, with an empty company name in the scope and one sub-report
  per planned task. The error for a request without a company URL is raised by the entry
  point \<^verbatim>\<open>generate_vc_dd_report_direct\<close>: when the URL is missing or blank it raises
  \<^verbatim>\<open>ValueError\<close> (for the missing profile, or else for the missing URL) and does not reach
  the rest of the function, where the research is started.
\<close>

theorem research_without_identity:
  assumes cfg: "DD_DEEP_RESEARCH_MAX_WORKERS w \<noteq> None"
    and order: "mset (completion_order w) = mset [0..<5]"
    and no_name: "strip lib company_name = []"
    and no_domain: "research_domain lib company_url = []"
  shows "(\<exists>r. run_company_deep_research lib w company_name company_url vc_thesis preferred_sectors
                seed_evidence_urls = Inr r
            \<and> sc_company_name (r_scope r) = []
            \<and> map sr_task_id (r_sub_reports r) = task_ids)
     \<and> (strip lib (case url_arg of None \<Rightarrow> [] | Some u \<Rightarrow> u) = [] \<longrightarrow>
          generate_vc_dd_report_direct lib get_vc_profile continue user_id name_arg url_arg
             extra_urls
            = Inl (if get_vc_profile user_id = None then no_profile_error else no_url_error))"
proof -
  have name: "research_name lib company_name company_url = []"
    by (simp add: research_name_def no_name no_domain)
  from run_company_deep_research_returns[OF cfg order, of lib company_name company_url vc_thesis
      preferred_sectors seed_evidence_urls]
  obtain r where r: "run_company_deep_research lib w company_name company_url vc_thesis
      preferred_sectors seed_evidence_urls = Inr r"
      "r_scope r = build_scope_brief lib [] (strip lib company_url) vc_thesis preferred_sectors"
      "r_sub_reports r = map (sub_report_of w [] (strip lib company_url)
          (research_seeds lib seed_evidence_urls)) (build_tasks lib [] (strip lib company_url))"
    unfolding name by auto
  have 1: "sc_company_name (r_scope r) = []" by (simp add: r(2) build_scope_brief_def)
  have 2: "map sr_task_id (r_sub_reports r) = task_ids"
    by (simp add: r(3) comp_def build_tasks_ids)
  have 3: "generate_vc_dd_report_direct lib get_vc_profile continue user_id name_arg url_arg
             extra_urls
            = Inl (if get_vc_profile user_id = None then no_profile_error else no_url_error)"
    if "strip lib (case url_arg of None \<Rightarrow> [] | Some u \<Rightarrow> u) = []"
    using that by (simp add: generate_vc_dd_report_direct_def Let_def split: option.splits)
  show ?thesis using r(1) 1 2 3 by blast
qed

text \<open>
  On the example: a blank name and a string that is no URL give a result; the entry point
  rejects a blank URL and passes a URL on.
\<close>

theorem research_without_identity_witness:
  "DD_DEEP_RESEARCH_MAX_WORKERS example_research_world \<noteq> None
   \<and> mset (completion_order example_research_world) = mset [0..<5]
   \<and> strip example_lib (U ''  '') = []
   \<and> research_domain example_lib (U ''not a url'') = []
   \<and> (\<exists>r. run_company_deep_research example_lib example_research_world (U ''  '')
             (U ''not a url'') [] None None = Inr r
          \<and> sc_company_name (r_scope r) = []
          \<and> map sr_task_id (r_sub_reports r) = task_ids)
   \<and> generate_vc_dd_report_direct example_lib example_get_vc_profile example_continue 1
        (Some (U ''Acme'')) (Some (U ''  '')) None = Inl no_url_error
   \<and> generate_vc_dd_report_direct example_lib example_get_vc_profile example_continue 1
        (Some (U ''Acme'')) (Some (U ''https://acme.example/'')) None
       = Inr (U ''https://acme.example/'')"
proof -
  have cfg: "DD_DEEP_RESEARCH_MAX_WORKERS example_research_world \<noteq> None"
    by (simp add: example_research_world_def)
  have perm: "mset (completion_order example_research_world) = mset [0..<5]"
    by code_simp
  have s: "strip example_lib (U ''  '') = []" by code_simp
  have d: "research_domain example_lib (U ''not a url'') = []" by code_simp
  have p: "example_get_vc_profile 1 \<noteq> None" by (simp add: example_get_vc_profile_def)
  have ok: "generate_vc_dd_report_direct example_lib example_get_vc_profile example_continue 1
        (Some (U ''Acme'')) (Some (U ''https://acme.example/'')) None
       = Inr (U ''https://acme.example/'')" by code_simp
  from research_without_identity[OF cfg perm s d, where url_arg = "Some (U ''  '')"
      and get_vc_profile = example_get_vc_profile and user_id = 1
      and continue = example_continue and name_arg = "Some (U ''Acme'')" and extra_urls = None
      and vc_thesis = "[]" and preferred_sectors = None and seed_evidence_urls = None]
  show ?thesis using cfg perm s d p ok by simp
qed

end
